theory Spec2Isabelle
  imports
    Main
    "HOL-Library.Sublist"
    "HOL-Library.Char_ord"
    "HOL-Library.List_Lexorder"
begin

section \<open>The import script \<^verbatim>\<open>import.py\<close>: data model\<close>

text \<open>
  The program is sequential glue around three external tools. Everything it does is an
  effect on the outside world, so the embedding has two parts: a record \<open>world\<close> of what
  the operating system and the Python runtime answer when asked (executable lookup, file
  system, file contents, the outcome of each child process), and a trace of \<open>event\<close>s
  that lists, in order, what the program does to the world (lines printed, files opened,
  processes started, browser opened). Every function of the source becomes a function
  from the world to a trace and a control outcome.

  The world is read-only during a run: the same question gets the same answer each
  time it is asked. \<^verbatim>\<open>print\<close> and \<^verbatim>\<open>webbrowser.open\<close> are taken to return without
  raising (the latter reports failure by its result, which the program ignores), and
  the queries of \<^verbatim>\<open>os.path\<close>, \<^verbatim>\<open>glob\<close> and \<^verbatim>\<open>shutil\<close> likewise.

  A Python \<^verbatim>\<open>str\<close> that is only searched for ASCII substrings and sliced at the
  positions found is modelled as its UTF-8 bytes (\<open>string\<close>); the text read back from
  the input file, where characters are counted, is a list of code points.
\<close>

subsection \<open>Configuration constants (lines 10--17)\<close>

definition DB_HOST :: string where "DB_HOST = ''localhost''"
definition DB_PORT :: string where "DB_PORT = ''5433''"
definition DB_NAME :: string where "DB_NAME = ''geoserver''"
definition DB_USER :: string where "DB_USER = ''postgres''"
definition DB_PASSWORD :: string where "DB_PASSWORD = ''postgres''"
definition DB_SSLMODE :: string where "DB_SSLMODE = ''disable''"
definition INPUT_FILENAME :: string where "INPUT_FILENAME = ''GisTPI''"

subsection \<open>Python string primitives\<close>

text \<open>
  \<^verbatim>\<open>sub in s\<close> is \<open>sublist sub s\<close> and \<^verbatim>\<open>s.startswith(sub)\<close> is \<open>prefix sub s\<close>, both of
  \<open>HOL-Library.Sublist\<close>. \<^verbatim>\<open>s.find(sub, start)\<close> returns the lowest index at or after
  \<open>start\<close> where \<open>sub\<close> occurs; Python's \<open>-1\<close> is \<open>None\<close> here.
\<close>

primrec find_at :: "'a list \<Rightarrow> 'a list \<Rightarrow> nat option" where
  "find_at sub [] = (if sub = [] then Some 0 else None)"
| "find_at sub (c # cs) =
     (if prefix sub (c # cs) then Some 0 else map_option Suc (find_at sub cs))"

definition str_find :: "'a list \<Rightarrow> 'a list \<Rightarrow> nat \<Rightarrow> nat option" where
  "str_find s sub start =
     (if length s < start then None
      else map_option (\<lambda>i. i + start) (find_at sub (drop start s)))"

text \<open>\<^verbatim>\<open>s[i:j]\<close> for \<open>0 \<le> i\<close> and \<open>0 \<le> j\<close>.\<close>

definition slice :: "'a list \<Rightarrow> nat \<Rightarrow> nat \<Rightarrow> 'a list" where
  "slice s i j = take (j - i) (drop i s)"

text \<open>\<^verbatim>\<open>s.strip(chars)\<close>: characters of \<open>chars\<close> removed from both ends.\<close>

definition strip :: "string \<Rightarrow> string \<Rightarrow> string" where
  "strip chars s =
     rev (dropWhile (\<lambda>c. c \<in> set chars) (rev (dropWhile (\<lambda>c. c \<in> set chars) s)))"

text \<open>Truthiness of a value that is either \<^verbatim>\<open>None\<close> or a \<^verbatim>\<open>str\<close>: \<^verbatim>\<open>if path:\<close>.\<close>

fun truthy :: "string option \<Rightarrow> bool" where
  "truthy None = False"
| "truthy (Some s) = (s \<noteq> [])"

subsection \<open>Text-mode reading: UTF-8 with \<^verbatim>\<open>errors='ignore'\<close>, newlines, \<^verbatim>\<open>upper()\<close>\<close>

text \<open>
  \<open>utf8_seq\<close> recognises one well-formed UTF-8 sequence at the head of a list of byte
  values and returns its code point and its length. Overlong forms, surrogates and
  values above \<open>0x10FFFF\<close> are not well formed, as in CPython's decoder.
\<close>

definition is_cont :: "nat \<Rightarrow> bool" where
  "is_cont b = (128 \<le> b \<and> b \<le> 191)"

fun utf8_seq :: "nat list \<Rightarrow> (nat \<times> nat) option" where
  "utf8_seq [] = None"
| "utf8_seq (b0 # rest) =
     (if b0 < 128 then Some (b0, 1)
      else if 194 \<le> b0 \<and> b0 \<le> 223 then
        (case rest of
           b1 # _ \<Rightarrow>
             if is_cont b1 then Some ((b0 - 192) * 64 + (b1 - 128), 2) else None
         | _ \<Rightarrow> None)
      else if 224 \<le> b0 \<and> b0 \<le> 239 then
        (case rest of
           b1 # b2 # _ \<Rightarrow>
             if (if b0 = 224 then 160 else 128) \<le> b1
                \<and> b1 \<le> (if b0 = 237 then 159 else 191) \<and> is_cont b2
             then Some ((b0 - 224) * 4096 + (b1 - 128) * 64 + (b2 - 128), 3)
             else None
         | _ \<Rightarrow> None)
      else if 240 \<le> b0 \<and> b0 \<le> 244 then
        (case rest of
           b1 # b2 # b3 # _ \<Rightarrow>
             if (if b0 = 240 then 144 else 128) \<le> b1
                \<and> b1 \<le> (if b0 = 244 then 143 else 191) \<and> is_cont b2 \<and> is_cont b3
             then Some ((b0 - 240) * 262144 + (b1 - 128) * 4096
                        + (b2 - 128) * 64 + (b3 - 128), 4)
             else None
         | _ \<Rightarrow> None)
      else None)"

text \<open>
  With \<^verbatim>\<open>errors='ignore'\<close> the decoder drops every byte that is not part of a
  well-formed sequence. CPython drops the maximal ill-formed prefix and resumes at the
  byte that broke it; the bytes of that prefix after the first are continuation bytes,
  which are ill formed on their own, so dropping one byte at a time gives the same text.
\<close>

fun utf8_decode_ignore :: "nat list \<Rightarrow> nat list" where
  "utf8_decode_ignore [] = []"
| "utf8_decode_ignore (b # bs) =
     (case utf8_seq (b # bs) of
        Some (cp, n) \<Rightarrow> cp # utf8_decode_ignore (drop (n - 1) bs)
      | None \<Rightarrow> utf8_decode_ignore bs)"

text \<open>Universal newlines of a file opened in text mode: CR LF and a lone CR both read as LF.\<close>

fun universal_newlines :: "nat list \<Rightarrow> nat list" where
  "universal_newlines [] = []"
| "universal_newlines [c] = [if c = 13 then 10 else c]"
| "universal_newlines (c # d # cs) =
     (if c = 13 \<and> d = 10 then 10 # universal_newlines cs
      else if c = 13 then 10 # universal_newlines (d # cs)
      else c # universal_newlines (d # cs))"

text \<open>
  \<^verbatim>\<open>str.upper()\<close> maps each code point on its own. On ASCII it is fixed here; beyond
  ASCII it follows the Unicode tables of the interpreter (one code point may become
  several, as U+00DF does), which are outside the repository and enter as the parameter
  \<open>tbl\<close>.
\<close>

definition upper_cp :: "(nat \<Rightarrow> nat list) \<Rightarrow> nat \<Rightarrow> nat list" where
  "upper_cp tbl c =
     (if 97 \<le> c \<and> c \<le> 122 then [c - 32] else if c < 128 then [c] else tbl c)"

definition str_upper :: "(nat \<Rightarrow> nat list) \<Rightarrow> nat list \<Rightarrow> nat list" where
  "str_upper tbl cs = concat (map (upper_cp tbl) cs)"

text \<open>The code points of an ASCII literal, and the byte values of a byte string.\<close>

definition code_points :: "string \<Rightarrow> nat list" where
  "code_points s = map of_char s"

subsection \<open>The outside world\<close>

text \<open>
  What \<^verbatim>\<open>subprocess.run\<close> gives back: the child ran and exited with a return code and
  (when captured) an error text, or the call raised an exception deriving from
  \<^verbatim>\<open>Exception\<close> (the executable cannot be started, the captured output cannot be decoded).
\<close>

datatype proc_result = Exited int string | Raised

record world =
  which :: "string \<Rightarrow> string option"
  glob :: "string \<Rightarrow> string list"
  os_path_join :: "string list \<Rightarrow> string"
  os_path_exists :: "string \<Rightarrow> bool"
  os_path_isfile :: "string \<Rightarrow> bool"
  script_dir :: string
  read_file :: "string \<Rightarrow> string option"
  unicode_upper :: "nat \<Rightarrow> nat list"
  subprocess_run :: "string list \<Rightarrow> (string \<times> string) list \<Rightarrow> proc_result"
  subprocess_Popen :: "string list \<Rightarrow> bool"

text \<open>
  \<^item> \<open>which\<close> is \<^verbatim>\<open>shutil.which\<close>, \<open>glob\<close> is \<^verbatim>\<open>glob.glob\<close>; \<open>os_path_join\<close>,
    \<open>os_path_exists\<close> and \<open>os_path_isfile\<close> are the functions of \<^verbatim>\<open>os.path\<close>, which
    depend on the platform;
  \<^item> \<open>script_dir\<close> is \<^verbatim>\<open>os.path.dirname(os.path.abspath(__file__))\<close>;
  \<^item> \<open>read_file p\<close> is the content of the file at \<open>p\<close>, \<open>None\<close> when opening or reading
    it raises;
  \<^item> \<open>subprocess_run argv env\<close> is the outcome of running \<open>argv\<close> with the variables
    \<open>env\<close> added to the environment; \<open>subprocess_Popen argv\<close> tells whether starting
    \<open>argv\<close> in the background succeeds (\<open>False\<close>: it raises).
\<close>

subsection \<open>Observable events\<close>

datatype file_type = PG_DUMP_BINARY | SQL_SCRIPT | GEOPACKAGE | UNKNOWN

datatype stream = Stdout | Stderr

text \<open>
  One constructor for each \<^verbatim>\<open>print\<close> statement of the source, in source order, with the
  values interpolated into its text as arguments.
\<close>

datatype message =
    MsgLocalizando              \<comment> \<open>line 42\<close>
  | MsgInstaladorEncontrado string  \<comment> \<open>line 77\<close>
  | MsgLanzando                 \<comment> \<open>line 78\<close>
  | MsgAccionRequerida          \<comment> \<open>line 79\<close>
  | MsgInstruccion nat          \<comment> \<open>lines 80--84, steps 1 to 5\<close>
  | MsgErrorAbrir               \<comment> \<open>line 90\<close>
  | MsgNoStackbuilder           \<comment> \<open>line 92\<close>
  | MsgAbriendoPagina           \<comment> \<open>line 93\<close>
  | MsgPaso1                    \<comment> \<open>line 100\<close>
  | MsgNoPsqlPostgis            \<comment> \<open>line 103\<close>
  | MsgEjecutado string         \<comment> \<open>line 119\<close>
  | MsgFaltaPostgis             \<comment> \<open>line 124\<close>
  | MsgErrorSQL string          \<comment> \<open>line 128, the error text (printed stripped)\<close>
  | MsgErrorActivando           \<comment> \<open>line 131\<close>
  | MsgPaso2Binario             \<comment> \<open>line 149\<close>
  | MsgNoPgRestore              \<comment> \<open>line 156\<close>
  | MsgEjecutandoRestauracion   \<comment> \<open>line 176\<close>
  | MsgProcesoFinalizado        \<comment> \<open>line 179\<close>
  | MsgErrorPgRestore           \<comment> \<open>line 181\<close>
  | MsgPaso2SQL                 \<comment> \<open>line 184\<close>
  | MsgNoPsql                   \<comment> \<open>line 189\<close>
  | MsgSQLFinalizada            \<comment> \<open>line 199\<close>
  | MsgErrorPsql int            \<comment> \<open>line 201, with the return code\<close>
  | MsgOgr2ogr                  \<comment> \<open>line 204\<close>
  | MsgIniciando                \<comment> \<open>line 218\<close>
  | MsgNoArchivo string         \<comment> \<open>line 223\<close>
  | MsgTipo file_type           \<comment> \<open>line 227\<close>
  | MsgDesconocido              \<comment> \<open>line 236\<close>

datatype event =
    Print stream message
  | OpenFile string bool        \<comment> \<open>\<^verbatim>\<open>open(path)\<close>; \<open>True\<close> for binary mode\<close>
  | Exec "string list" "(string \<times> string) list"   \<comment> \<open>\<^verbatim>\<open>subprocess.run\<close>\<close>
  | Spawn "string list"         \<comment> \<open>\<^verbatim>\<open>subprocess.Popen\<close>\<close>
  | Browser string              \<comment> \<open>\<^verbatim>\<open>webbrowser.open\<close>\<close>

text \<open>
  How a call ends: it returns a value, \<^verbatim>\<open>sys.exit\<close> was called, or an exception that
  nothing catches is on its way out.
\<close>

datatype py_exception = TypeError | ChildError

datatype 'a outcome = Return 'a | SysExit int | Uncaught py_exception

type_synonym 'a run = "event list \<times> 'a outcome"

text \<open>The exit status of the process from the outcome of the main block.\<close>

fun exit_status :: "'a outcome \<Rightarrow> int" where
  "exit_status (Return _) = 0"
| "exit_status (SysExit n) = n"
| "exit_status (Uncaught _) = 1"

text \<open>Sequencing: the events of the first part, then the rest.\<close>

definition after :: "event list \<Rightarrow> 'a run \<Rightarrow> 'a run" where
  "after evs r = (evs @ fst r, snd r)"

section \<open>The functions of the program\<close>

subsection \<open>\<^verbatim>\<open>detect_file_type\<close> (lines 133--146)\<close>

definition PGDMP_magic :: string where "PGDMP_magic = ''PGDMP''"
definition SQLite_magic :: string where "SQLite_magic = ''SQLite format 3''"

text \<open>The text of the second read: \<^verbatim>\<open>f.read(100).upper()\<close> on the decoded file.\<close>

definition text_start :: "world \<Rightarrow> string \<Rightarrow> nat list" where
  "text_start w bytes =
     str_upper (unicode_upper w)
       (take 100 (universal_newlines (utf8_decode_ignore (map of_char bytes))))"

definition has_sql_marker :: "nat list \<Rightarrow> bool" where
  "has_sql_marker start =
     (sublist (code_points ''CREATE'') start
      \<or> sublist (code_points ''SET'') start
      \<or> sublist (code_points ''--'') start)"

definition detect_file_type :: "world \<Rightarrow> string \<Rightarrow> event list \<times> file_type" where
  "detect_file_type w filepath =
     (case read_file w filepath of
        None \<Rightarrow> ([OpenFile filepath True], UNKNOWN)
      | Some bytes \<Rightarrow>
          let header = take 15 bytes in
          if prefix PGDMP_magic header then ([OpenFile filepath True], PG_DUMP_BINARY)
          else if sublist SQLite_magic header then ([OpenFile filepath True], GEOPACKAGE)
          else
            (case read_file w filepath of
               None \<Rightarrow> ([OpenFile filepath True, OpenFile filepath False], UNKNOWN)
             | Some text \<Rightarrow>
                 ([OpenFile filepath True, OpenFile filepath False],
                  if has_sql_marker (text_start w text) then SQL_SCRIPT else UNKNOWN)))"


subsection \<open>\<^verbatim>\<open>find_executable\<close> (lines 20--35)\<close>

definition backslash :: char where "backslash = CHR 0x5C"

text \<open>A Windows path literal of the source, from its components.\<close>

fun win_path :: "string list \<Rightarrow> string" where
  "win_path [] = []"
| "win_path [p] = p"
| "win_path (p # q # ps) = p @ backslash # win_path (q # ps)"

definition common_paths :: "string list" where
  "common_paths =
     [win_path [''C:'', ''Program Files'', ''PostgreSQL'', ''*'', ''bin''],
      win_path [''C:'', ''Program Files (x86)'', ''PostgreSQL'', ''*'', ''bin''],
      win_path [''C:'', ''OSGeo4W'', ''bin''],
      win_path [''C:'', ''Program Files'', ''QGIS*'', ''bin'']]"

text \<open>The loop over \<open>common_paths\<close>: the greatest match of the first pattern that has one.\<close>

fun search_common_paths :: "world \<Rightarrow> string \<Rightarrow> string list \<Rightarrow> string option" where
  "search_common_paths w name [] = None"
| "search_common_paths w name (pattern # rest) =
     (case rev (sort (glob w (os_path_join w [pattern, name @ ''.exe'']))) of
        [] \<Rightarrow> search_common_paths w name rest
      | m # _ \<Rightarrow> Some m)"

definition find_executable :: "world \<Rightarrow> string \<Rightarrow> string option" where
  "find_executable w name =
     (let path = which w name in
      if truthy path then path else search_common_paths w name common_paths)"

subsection \<open>\<^verbatim>\<open>launch_stackbuilder_from_error\<close> (lines 37--96)\<close>

text \<open>Lines 46--60: the installation directory named in the error text, if any.\<close>

definition deduce_base_path :: "string \<Rightarrow> string option" where
  "deduce_base_path stderr_output =
     (if sublist ''PostgreSQL'' stderr_output then
        (case (case str_find stderr_output ''C:/'' 0 of
                 None \<Rightarrow> str_find stderr_output (''C:'' @ [backslash]) 0
               | Some i \<Rightarrow> Some i) of
           None \<Rightarrow> None
         | Some start_idx \<Rightarrow>
             (case str_find stderr_output ''share'' start_idx of
                None \<Rightarrow> None
              | Some end_idx \<Rightarrow>
                  Some (strip [CHR ''/'', backslash, CHR '' '']
                          (slice stderr_output start_idx end_idx))))
      else None)"

definition stackbuilder_glob :: string where
  "stackbuilder_glob =
     win_path [''C:'', ''Program Files'', ''PostgreSQL'', ''*'', ''bin'', ''stackbuilder.exe'']"

definition postgis_install_url :: string where
  "postgis_install_url =
     ''https://www.postgis.net/documentation/getting_started/install_windows/''"

text \<open>Lines 62--74: where the installer is, from the deduced directory or by search.\<close>

definition locate_stackbuilder :: "world \<Rightarrow> string \<Rightarrow> string option" where
  "locate_stackbuilder w stderr_output =
     (let base_path = deduce_base_path stderr_output;
          stackbuilder_path =
            (case base_path of
               None \<Rightarrow> None
             | Some b \<Rightarrow>
                 if b \<noteq> [] then
                   (let candidate = os_path_join w [b, ''bin'', ''stackbuilder.exe'']
                    in if os_path_exists w candidate then Some candidate else None)
                 else None)
      in if \<not> truthy stackbuilder_path then
           (case glob w stackbuilder_glob of
              [] \<Rightarrow> stackbuilder_path
            | c # cs \<Rightarrow> Some (last (c # cs)))
         else stackbuilder_path)"

definition launch_stackbuilder_from_error :: "world \<Rightarrow> string \<Rightarrow> bool run" where
  "launch_stackbuilder_from_error w stderr_output =
     (case locate_stackbuilder w stderr_output of
        None \<Rightarrow>
          ([Print Stdout MsgLocalizando, Print Stdout MsgNoStackbuilder,
            Print Stdout MsgAbriendoPagina, Browser postgis_install_url], Return False)
      | Some stackbuilder_path \<Rightarrow>
          if stackbuilder_path \<noteq> [] \<and> os_path_exists w stackbuilder_path then
            after
              [Print Stdout MsgLocalizando,
               Print Stdout (MsgInstaladorEncontrado stackbuilder_path),
               Print Stdout MsgLanzando, Print Stdout MsgAccionRequerida,
               Print Stdout (MsgInstruccion 1), Print Stdout (MsgInstruccion 2),
               Print Stdout (MsgInstruccion 3), Print Stdout (MsgInstruccion 4),
               Print Stdout (MsgInstruccion 5), Spawn [stackbuilder_path]]
              (if subprocess_Popen w [stackbuilder_path] then ([], Return True)
               else ([Print Stdout MsgErrorAbrir], Return False))
          else
            ([Print Stdout MsgLocalizando, Print Stdout MsgNoStackbuilder,
              Print Stdout MsgAbriendoPagina, Browser postgis_install_url], Return False))"

subsection \<open>\<^verbatim>\<open>force_enable_postgis\<close> (lines 98--131)\<close>

definition pg_env :: "(string \<times> string) list" where
  "pg_env = [(''PGPASSWORD'', DB_PASSWORD)]"

definition connection_args :: "string list" where
  "connection_args = [''-h'', DB_HOST, ''-p'', DB_PORT, ''-U'', DB_USER, ''-d'', DB_NAME]"

definition postgis_commands :: "string list" where
  "postgis_commands =
     [''CREATE EXTENSION IF NOT EXISTS postgis CASCADE;'',
      ''CREATE EXTENSION IF NOT EXISTS postgis_topology;'']"

definition psql_command :: "string \<Rightarrow> string \<Rightarrow> string list" where
  "psql_command tool sql = tool # connection_args @ [''-c'', sql]"

text \<open>The test of line 123 on the error text of a failed statement.\<close>

definition postgis_files_missing :: "string \<Rightarrow> bool" where
  "postgis_files_missing err_msg =
     (sublist ''No such file or directory'' err_msg \<and> sublist ''postgis.control'' err_msg)"

text \<open>
  The loop of lines 114--131. \<^verbatim>\<open>sys.exit(1)\<close> raises \<^verbatim>\<open>SystemExit\<close>, which is not an
  \<^verbatim>\<open>Exception\<close>: the handler of line 130 lets it through. The function returns
  \<^verbatim>\<open>None\<close> when the loop ends.
\<close>

fun enable_statements :: "world \<Rightarrow> string \<Rightarrow> string list \<Rightarrow> bool option run" where
  "enable_statements w tool [] = ([], Return None)"
| "enable_statements w tool (sql # rest) =
     (let cmd = psql_command tool sql in
      case subprocess_run w cmd pg_env of
        Raised \<Rightarrow>
          after [Exec cmd pg_env, Print Stdout MsgErrorActivando]
            (enable_statements w tool rest)
      | Exited returncode err_msg \<Rightarrow>
          if returncode = 0 then
            after [Exec cmd pg_env, Print Stdout (MsgEjecutado sql)]
              (enable_statements w tool rest)
          else if postgis_files_missing err_msg then
            ([Exec cmd pg_env, Print Stderr MsgFaltaPostgis]
               @ fst (launch_stackbuilder_from_error w err_msg), SysExit 1)
          else
            after [Exec cmd pg_env, Print Stderr (MsgErrorSQL err_msg)]
              (enable_statements w tool rest))"

definition force_enable_postgis :: "world \<Rightarrow> bool option run" where
  "force_enable_postgis w =
     (case find_executable w ''psql'' of
        None \<Rightarrow> ([Print Stdout MsgPaso1, Print Stderr MsgNoPsqlPostgis], Return (Some False))
      | Some tool \<Rightarrow>
          if tool = [] then
            ([Print Stdout MsgPaso1, Print Stderr MsgNoPsqlPostgis], Return (Some False))
          else after [Print Stdout MsgPaso1] (enable_statements w tool postgis_commands))"

subsection \<open>The three importers (lines 148--208)\<close>

text \<open>
  \<open>and_then r k\<close> continues with \<open>k\<close> when \<open>r\<close> returns; an exit or an exception of
  \<open>r\<close> ends the caller too.
\<close>

definition and_then :: "'a run \<Rightarrow> ('a \<Rightarrow> 'b run) \<Rightarrow> 'b run" where
  "and_then r k =
     (case snd r of
        Return x \<Rightarrow> after (fst r) (k x)
      | SysExit n \<Rightarrow> (fst r, SysExit n)
      | Uncaught e \<Rightarrow> (fst r, Uncaught e))"

definition pg_restore_command :: "string \<Rightarrow> string \<Rightarrow> string list" where
  "pg_restore_command tool filepath =
     tool # connection_args
       @ [''-v'', ''-c'', ''--if-exists'', ''--no-owner'', ''--no-acl'', filepath]"

text \<open>Lines 154--181: from the lookup of \<^verbatim>\<open>pg_restore\<close> on.\<close>

definition pg_restore_step :: "world \<Rightarrow> string \<Rightarrow> unit run" where
  "pg_restore_step w filepath =
     (case find_executable w ''pg_restore'' of
        None \<Rightarrow> ([Print Stderr MsgNoPgRestore], Return ())
      | Some tool \<Rightarrow>
          if tool = [] then ([Print Stderr MsgNoPgRestore], Return ())
          else
            (let cmd = pg_restore_command tool filepath in
             case subprocess_run w cmd pg_env of
               Exited _ _ \<Rightarrow>
                 ([Print Stdout MsgEjecutandoRestauracion, Exec cmd pg_env,
                   Print Stdout MsgProcesoFinalizado], Return ())
             | Raised \<Rightarrow>
                 ([Print Stdout MsgEjecutandoRestauracion, Exec cmd pg_env,
                   Print Stdout MsgErrorPgRestore], Return ())))"

definition import_with_pg_restore :: "world \<Rightarrow> string \<Rightarrow> unit run" where
  "import_with_pg_restore w filepath =
     after [Print Stdout MsgPaso2Binario]
       (and_then (force_enable_postgis w) (\<lambda>_. pg_restore_step w filepath))"

definition psql_file_command :: "string \<Rightarrow> string \<Rightarrow> string list" where
  "psql_file_command tool filepath = tool # connection_args @ [''-f'', filepath]"

text \<open>
  Lines 187--201: from the lookup of \<^verbatim>\<open>psql\<close> on.
  \<^verbatim>\<open>subprocess.run(..., check=True)\<close> raises \<^verbatim>\<open>CalledProcessError\<close> on a return code
  other than zero, which line 200 catches; any other exception is not caught.
\<close>

definition psql_step :: "world \<Rightarrow> string \<Rightarrow> unit run" where
  "psql_step w filepath =
     (case find_executable w ''psql'' of
        None \<Rightarrow> ([Print Stderr MsgNoPsql], Return ())
      | Some tool \<Rightarrow>
          if tool = [] then ([Print Stderr MsgNoPsql], Return ())
          else
            (let cmd = psql_file_command tool filepath in
             case subprocess_run w cmd pg_env of
               Exited returncode _ \<Rightarrow>
                 if returncode = 0 then
                   ([Exec cmd pg_env, Print Stdout MsgSQLFinalizada], Return ())
                 else
                   ([Exec cmd pg_env, Print Stderr (MsgErrorPsql returncode)], Return ())
             | Raised \<Rightarrow> ([Exec cmd pg_env], Uncaught ChildError)))"

definition import_with_psql :: "world \<Rightarrow> string \<Rightarrow> unit run" where
  "import_with_psql w filepath =
     after [Print Stdout MsgPaso2SQL]
       (and_then (force_enable_postgis w) (\<lambda>_. psql_step w filepath))"

definition dsn :: string where
  "dsn = ''PG:host='' @ DB_HOST @ '' port='' @ DB_PORT @ '' dbname='' @ DB_NAME
           @ '' user='' @ DB_USER @ '' password='' @ DB_PASSWORD"

definition ogr2ogr_command :: "string \<Rightarrow> string \<Rightarrow> string list" where
  "ogr2ogr_command tool filepath =
     [tool, ''-f'', ''PostgreSQL'', dsn, filepath, ''-overwrite'', ''-nln'', ''GisTPI_import'']"

text \<open>
  The result of \<open>find_executable\<close> goes into the argument list unchecked. When it is
  \<^verbatim>\<open>None\<close>, \<^verbatim>\<open>subprocess.run\<close> raises \<^verbatim>\<open>TypeError\<close> before any process starts, and
  nothing catches it.
\<close>

definition import_with_ogr2ogr :: "world \<Rightarrow> string \<Rightarrow> unit run" where
  "import_with_ogr2ogr w filepath =
     after [Print Stdout MsgOgr2ogr]
       (case find_executable w ''ogr2ogr'' of
          None \<Rightarrow> ([], Uncaught TypeError)
        | Some tool \<Rightarrow>
            (let cmd = ogr2ogr_command tool filepath in
             case subprocess_run w cmd [] of
               Exited _ _ \<Rightarrow> ([Exec cmd []], Return ())
             | Raised \<Rightarrow> ([Exec cmd []], Uncaught ChildError)))"

subsection \<open>\<^verbatim>\<open>resolve_input_file\<close> and the main block (lines 211--237)\<close>

definition resolve_input_file :: "world \<Rightarrow> string \<Rightarrow> string option" where
  "resolve_input_file w filename_raw =
     (let path = os_path_join w [script_dir w, filename_raw] in
      if os_path_isfile w path then Some path else None)"

text \<open>Lines 229--237: the importer for each format tag.\<close>

definition dispatch :: "world \<Rightarrow> file_type \<Rightarrow> string \<Rightarrow> unit run" where
  "dispatch w file_type input_path =
     (case file_type of
        PG_DUMP_BINARY \<Rightarrow> import_with_pg_restore w input_path
      | SQL_SCRIPT \<Rightarrow> import_with_psql w input_path
      | GEOPACKAGE \<Rightarrow> import_with_ogr2ogr w input_path
      | UNKNOWN \<Rightarrow>
          after [Print Stdout MsgDesconocido] (import_with_pg_restore w input_path))"

definition main :: "world \<Rightarrow> unit run" where
  "main w =
     after [Print Stdout MsgIniciando]
       (case resolve_input_file w INPUT_FILENAME of
          None \<Rightarrow> ([Print Stderr (MsgNoArchivo INPUT_FILENAME)], SysExit 1)
        | Some input_path \<Rightarrow>
            if input_path = [] then ([Print Stderr (MsgNoArchivo INPUT_FILENAME)], SysExit 1)
            else
              (let detected = detect_file_type w input_path in
               after (fst detected @ [Print Stdout (MsgTipo (snd detected))])
                 (dispatch w (snd detected) input_path)))"


section \<open>Reading a run\<close>

text \<open>The argument lists given to \<^verbatim>\<open>subprocess.run\<close> during a run, in order.\<close>

fun exec_argv :: "event \<Rightarrow> string list option" where
  "exec_argv (Exec argv _) = Some argv"
| "exec_argv _ = None"

definition commands_run :: "event list \<Rightarrow> string list list" where
  "commands_run tr = List.map_filter exec_argv tr"

text \<open>An argument list of the shape the extension activator builds (line 115).\<close>

definition is_activation_cmd :: "string list \<Rightarrow> bool" where
  "is_activation_cmd argv =
     (case argv of
        [] \<Rightarrow> False
      | _ # args \<Rightarrow> args \<in> set (map (\<lambda>sql. connection_args @ [''-c'', sql]) postgis_commands))"

text \<open>The outcome of a statement that line 123 takes as fatal.\<close>

fun reports_missing_postgis :: "proc_result \<Rightarrow> bool" where
  "reports_missing_postgis (Exited returncode err_msg) =
     (returncode \<noteq> 0 \<and> postgis_files_missing err_msg)"
| "reports_missing_postgis Raised = False"

text \<open>The recovery action of line 87 or of line 94.\<close>

fun is_recovery :: "event \<Rightarrow> bool" where
  "is_recovery (Spawn _) = True"
| "is_recovery (Browser _) = True"
| "is_recovery _ = False"

fun is_open :: "event \<Rightarrow> bool" where
  "is_open (OpenFile _ _) = True"
| "is_open _ = False"

text \<open>
  Both importers that activate the extension first have the same frame: a banner, the
  activator, then a step that runs only if the activator returns.
\<close>

definition activated :: "world \<Rightarrow> message \<Rightarrow> unit run \<Rightarrow> unit run" where
  "activated w banner step =
     after [Print Stdout banner] (and_then (force_enable_postgis w) (\<lambda>_. step))"

section \<open>Sample worlds\<close>

text \<open>
  A Unix machine on which the three tools are on the search path, the script lives in
  \<^verbatim>\<open>/opt/restore\<close>, every child process succeeds, and the input file is a binary dump.
  The other worlds change one thing at a time.
\<close>

fun posix_join :: "string list \<Rightarrow> string" where
  "posix_join [] = []"
| "posix_join [p] = p"
| "posix_join (p # q # ps) = p @ ''/'' @ posix_join (q # ps)"

definition sample_which :: "string \<Rightarrow> string option" where
  "sample_which name =
     (if name \<in> {''psql'', ''pg_restore'', ''ogr2ogr''} then Some (''/usr/bin/'' @ name)
      else None)"

definition sample_world :: world where
  "sample_world =
     \<lparr> which = sample_which,
       glob = (\<lambda>_. []),
       os_path_join = posix_join,
       os_path_exists = (\<lambda>p. p = ''/opt/restore/GisTPI''),
       os_path_isfile = (\<lambda>p. p = ''/opt/restore/GisTPI''),
       script_dir = ''/opt/restore'',
       read_file = (\<lambda>p. if p = ''/opt/restore/GisTPI'' then Some ''PGDMP dump'' else None),
       unicode_upper = (\<lambda>c. [c]),
       subprocess_run = (\<lambda>argv env. Exited 0 []),
       subprocess_Popen = (\<lambda>argv. True) \<rparr>"

definition with_file :: "string \<Rightarrow> world" where
  "with_file bytes = sample_world \<lparr> read_file := (\<lambda>p. Some bytes) \<rparr>"

definition world_no_input :: world where
  "world_no_input = sample_world \<lparr> os_path_isfile := (\<lambda>p. False) \<rparr>"

text \<open>The extension files are not installed: every activation statement fails on them.\<close>

definition missing_postgis_error :: string where
  "missing_postgis_error =
     ''ERROR: could not open extension control file ''
       @ ''C:/Program Files/PostgreSQL/17/share/extension/postgis.control''
       @ '': No such file or directory''"

definition world_missing_postgis :: world where
  "world_missing_postgis =
     sample_world \<lparr> subprocess_run :=
       (\<lambda>argv env. if is_activation_cmd argv then Exited 1 missing_postgis_error
                   else Exited 0 []) \<rparr>"

text \<open>The input is an SQL script and psql exits with status 3 on it.\<close>

definition world_psql_fails :: world where
  "world_psql_fails =
     with_file ''set search_path = public;'' \<lparr> subprocess_run :=
       (\<lambda>argv env.
          if argv = psql_file_command ''/usr/bin/psql'' ''/opt/restore/GisTPI''
          then Exited 3 [] else Exited 0 []) \<rparr>"

text \<open>No tool is installed anywhere.\<close>

definition no_tools :: "world \<Rightarrow> world" where
  "no_tools w = w \<lparr> which := (\<lambda>name. None) \<rparr>"

text \<open>Only psql is missing.\<close>

definition no_psql :: "world \<Rightarrow> world" where
  "no_psql w = w \<lparr> which := (\<lambda>name. if name = ''psql'' then None else which w name) \<rparr>"

text \<open>The head of an SQLite database file, and a file with no marker at all.\<close>

definition sqlite_file :: string where
  "sqlite_file = ''SQLite format 3'' @ [CHR 0x00, CHR 0x10, CHR 0x00, CHR 0x01]"

definition plain_file :: string where
  "plain_file = ''hello world''"

section \<open>Properties of the format detector\<close>

lemma prefix_take_iff:
  "length xs \<le> n \<Longrightarrow> prefix xs (take n ys) \<longleftrightarrow> prefix xs ys"
proof
  assume "prefix xs (take n ys)"
  then show "prefix xs ys"
    using take_is_prefix prefix_order.trans by blast
next
  assume len: "length xs \<le> n" and "prefix xs ys"
  then obtain zs where "ys = xs @ zs"
    by (auto simp: prefix_def)
  with len show "prefix xs (take n ys)"
    by (simp add: prefix_def)
qed

lemma sublist_take_mono:
  assumes "sublist xs (take m ys)" and "m \<le> n"
  shows "sublist xs (take n ys)"
proof -
  have "take m ys = take m (take n ys)"
    using \<open>m \<le> n\<close> by (simp add: min_def)
  then have "sublist (take m ys) (take n ys)"
    by (metis sublist_take)
  with assms(1) show ?thesis
    using sublist_order.order.trans by blast
qed

lemma detect_pgdmp:
  assumes "read_file w filepath = Some bytes" and "prefix PGDMP_magic bytes"
  shows "detect_file_type w filepath = ([OpenFile filepath True], PG_DUMP_BINARY)"
proof -
  have "prefix PGDMP_magic (take 15 bytes)"
    using assms(2) by (simp add: prefix_take_iff PGDMP_magic_def)
  with assms(1) show ?thesis
    by (simp add: detect_file_type_def)
qed

text \<open>
  C2, as the code has it. The detector reads 15 bytes, the length of the SQLite magic
  string: a readable file that does not start with the binary-dump marker and has the
  magic string inside its first 15 bytes (so at offset 0) is classified as GEOPACKAGE.
\<close>

theorem sqlite_magic_in_header_is_geopackage:
  assumes "read_file w filepath = Some bytes"
    and "sublist SQLite_magic (take 15 bytes)"
    and "\<not> prefix PGDMP_magic bytes"
  shows "snd (detect_file_type w filepath) = GEOPACKAGE"
proof -
  have "\<not> prefix PGDMP_magic (take 15 bytes)"
    using assms(3) by (simp add: prefix_take_iff PGDMP_magic_def)
  with assms(1,2) show ?thesis
    by (simp add: detect_file_type_def)
qed

theorem sqlite_magic_in_header_witness:
  "read_file (with_file ''SQLite format 3 and more'') ''/opt/restore/GisTPI''
     = Some ''SQLite format 3 and more''
   \<and> sublist SQLite_magic (take 15 ''SQLite format 3 and more'')
   \<and> \<not> prefix PGDMP_magic ''SQLite format 3 and more''
   \<and> snd (detect_file_type (with_file ''SQLite format 3 and more'') ''/opt/restore/GisTPI'')
       = GEOPACKAGE"
proof -
  have h1: "read_file (with_file ''SQLite format 3 and more'') ''/opt/restore/GisTPI''
              = Some ''SQLite format 3 and more''"
    by (simp add: with_file_def sample_world_def)
  have h2: "sublist SQLite_magic (take 15 ''SQLite format 3 and more'')"
    by (simp add: SQLite_magic_def)
  have h3: "\<not> prefix PGDMP_magic ''SQLite format 3 and more''"
    by (simp add: PGDMP_magic_def)
  from sqlite_magic_in_header_is_geopackage [OF h1 h2 h3] h1 h2 h3 show ?thesis
    by simp
qed

text \<open>
  C2, as the specification has it (a window of about 128 bytes), fails: with one byte in
  front of the magic string the 15 bytes read hold only its first 14 characters, the text
  has none of the script markers, and the file is classified as UNKNOWN.
\<close>

theorem sqlite_magic_after_offset_zero_counterexample:
  "read_file (with_file ''XSQLite format 3'') ''/opt/restore/GisTPI''
     = Some ''XSQLite format 3''
   \<and> sublist SQLite_magic (take 128 ''XSQLite format 3'')
   \<and> \<not> prefix PGDMP_magic ''XSQLite format 3''
   \<and> snd (detect_file_type (with_file ''XSQLite format 3'') ''/opt/restore/GisTPI'')
       \<noteq> GEOPACKAGE"
  by (simp add: with_file_def sample_world_def detect_file_type_def SQLite_magic_def
      PGDMP_magic_def sublist_Cons_right text_start_def has_sql_marker_def code_points_def
      str_upper_def upper_cp_def)

text \<open>
  C9. A readable file that does not start with the binary-dump marker and does not have
  the SQLite magic string in its first \<open>n\<close> bytes, for any window \<open>n\<close> of at least the 15
  bytes the code reads (so for the 128 of the specification too), is classified as
  SQL_SCRIPT when the upper-cased first 100 characters of its text, decoded as UTF-8 with
  ill-formed bytes dropped, contain \<^verbatim>\<open>CREATE\<close>, \<^verbatim>\<open>SET\<close> or \<^verbatim>\<open>--\<close>.
\<close>

theorem sql_markers_classified_as_script:
  assumes "read_file w filepath = Some bytes"
    and "\<not> prefix PGDMP_magic bytes"
    and "15 \<le> n" and "\<not> sublist SQLite_magic (take n bytes)"
    and "start = str_upper (unicode_upper w)
                   (take 100 (universal_newlines (utf8_decode_ignore (map of_char bytes))))"
    and "sublist (code_points ''CREATE'') start \<or> sublist (code_points ''SET'') start
         \<or> sublist (code_points ''--'') start"
  shows "snd (detect_file_type w filepath) = SQL_SCRIPT"
proof -
  have "\<not> prefix PGDMP_magic (take 15 bytes)"
    using assms(2) by (simp add: prefix_take_iff PGDMP_magic_def)
  moreover have "\<not> sublist SQLite_magic (take 15 bytes)"
    using assms(3,4) sublist_take_mono by blast
  moreover have "has_sql_marker (text_start w bytes)"
    using assms(5,6) by (simp add: has_sql_marker_def text_start_def)
  ultimately show ?thesis
    using assms(1) by (simp add: detect_file_type_def)
qed

theorem sql_markers_witness:
  "snd (detect_file_type (with_file ''set search_path = public;'') ''/opt/restore/GisTPI'')
     = SQL_SCRIPT
   \<and> str_upper (\<lambda>c. [c]) (take 100 (universal_newlines
        (utf8_decode_ignore (map of_char ''set search_path = public;''))))
       = code_points ''SET SEARCH_PATH = PUBLIC;''"
proof -
  let ?w = "with_file ''set search_path = public;''"
  let ?bytes = "''set search_path = public;''"
  let ?start = "code_points ''SET SEARCH_PATH = PUBLIC;''"
  have h1: "read_file ?w ''/opt/restore/GisTPI'' = Some ?bytes"
    by (simp add: with_file_def sample_world_def)
  have h2: "\<not> prefix PGDMP_magic ?bytes"
    by (simp add: PGDMP_magic_def)
  have h3: "\<not> sublist SQLite_magic (take 128 ?bytes)"
    by (simp add: SQLite_magic_def sublist_Cons_right)
  have h4: "?start = str_upper (unicode_upper ?w)
                   (take 100 (universal_newlines (utf8_decode_ignore (map of_char ?bytes))))"
    by (simp add: with_file_def sample_world_def str_upper_def upper_cp_def code_points_def)
  have h5: "sublist (code_points ''CREATE'') ?start \<or> sublist (code_points ''SET'') ?start
         \<or> sublist (code_points ''--'') ?start"
    by (simp add: code_points_def)
  from sql_markers_classified_as_script [OF h1 h2 _ h3 h4 h5] h4 show ?thesis
    by (simp add: with_file_def sample_world_def)
qed

section \<open>Properties of the resolver\<close>

text \<open>
  C8. The resolver returns a path only if it is the given name joined to the directory
  of the program and a regular file is there. When no regular file has the configured
  name there, the resolver returns nothing and the run is: the opening line, the
  complaint on the error stream, exit status 1; no file is opened, so detection is not
  attempted.
\<close>

theorem resolver_exact_name_or_exit:
  "(resolve_input_file w name = Some p \<longrightarrow>
      p = os_path_join w [script_dir w, name] \<and> os_path_isfile w p)
   \<and> (\<not> os_path_isfile w (os_path_join w [script_dir w, INPUT_FILENAME]) \<longrightarrow>
        resolve_input_file w INPUT_FILENAME = None
        \<and> main w = ([Print Stdout MsgIniciando, Print Stderr (MsgNoArchivo INPUT_FILENAME)],
                     SysExit 1)
        \<and> exit_status (snd (main w)) \<noteq> 0
        \<and> (\<forall>e \<in> set (fst (main w)). \<not> is_open e))"
  by (auto simp: resolve_input_file_def main_def after_def Let_def)

theorem resolver_witness:
  "resolve_input_file sample_world ''GisTPI'' = Some ''/opt/restore/GisTPI''
   \<and> os_path_isfile sample_world ''/opt/restore/GisTPI''
   \<and> \<not> os_path_isfile world_no_input
         (os_path_join world_no_input [script_dir world_no_input, INPUT_FILENAME])
   \<and> main world_no_input
       = ([Print Stdout MsgIniciando, Print Stderr (MsgNoArchivo INPUT_FILENAME)], SysExit 1)"
proof -
  have h1: "resolve_input_file sample_world ''GisTPI'' = Some ''/opt/restore/GisTPI''"
    by (simp add: resolve_input_file_def sample_world_def)
  have h2: "\<not> os_path_isfile world_no_input
              (os_path_join world_no_input [script_dir world_no_input, INPUT_FILENAME])"
    by (simp add: world_no_input_def sample_world_def)
  from h1 resolver_exact_name_or_exit [of sample_world "''GisTPI''" "''/opt/restore/GisTPI''"]
  have a: "os_path_isfile sample_world ''/opt/restore/GisTPI''"
    by blast
  from h2 resolver_exact_name_or_exit [of world_no_input]
  have b: "main world_no_input
             = ([Print Stdout MsgIniciando, Print Stderr (MsgNoArchivo INPUT_FILENAME)], SysExit 1)"
    by blast
  from h1 h2 a b show ?thesis
    by blast
qed

section \<open>Runs of the extension activator\<close>

subsection \<open>Sequencing\<close>

lemma fst_after [simp]: "fst (after evs r) = evs @ fst r"
  by (simp add: after_def)

lemma snd_after [simp]: "snd (after evs r) = snd r"
  by (simp add: after_def)

lemma and_then_Return:
  "snd r = Return x \<Longrightarrow> and_then r k = after (fst r) (k x)"
  by (simp add: and_then_def)

lemma and_then_SysExit:
  "snd r = SysExit n \<Longrightarrow> and_then r k = (fst r, SysExit n)"
  by (simp add: and_then_def)

subsection \<open>The recovery action\<close>

lemma launch_no_exec:
  "Exec argv env \<notin> set (fst (launch_stackbuilder_from_error w err))"
  by (simp add: launch_stackbuilder_from_error_def split: option.splits)

lemma launch_recovery:
  "\<exists>e \<in> set (fst (launch_stackbuilder_from_error w err)). is_recovery e"
  by (simp add: launch_stackbuilder_from_error_def split: option.splits)

subsection \<open>Shapes of the command lines\<close>

lemma activation_cmd_psql_command:
  "is_activation_cmd (psql_command tool sql) \<longleftrightarrow> sql \<in> set postgis_commands"
  by (auto simp: is_activation_cmd_def psql_command_def)

lemma pg_restore_not_activation: "\<not> is_activation_cmd (pg_restore_command tool filepath)"
  by (auto simp: is_activation_cmd_def pg_restore_command_def)

lemma psql_file_not_activation: "\<not> is_activation_cmd (psql_file_command tool filepath)"
  by (auto simp: is_activation_cmd_def psql_file_command_def)

lemma ogr2ogr_not_activation: "\<not> is_activation_cmd (ogr2ogr_command tool filepath)"
  by (auto simp: is_activation_cmd_def ogr2ogr_command_def connection_args_def)

lemma psql_file_command_inject:
  "psql_file_command t p = psql_file_command t' p' \<longleftrightarrow> t = t' \<and> p = p'"
  by (auto simp: psql_file_command_def)

lemma psql_file_not_pg_restore: "psql_file_command t p \<noteq> pg_restore_command t' p'"
  by (simp add: psql_file_command_def pg_restore_command_def)

lemma psql_file_not_ogr2ogr: "psql_file_command t p \<noteq> ogr2ogr_command t' p'"
  by (simp add: psql_file_command_def ogr2ogr_command_def connection_args_def)

lemma psql_file_not_psql_command: "psql_file_command t p \<noteq> psql_command t' sql"
  by (simp add: psql_file_command_def psql_command_def)

subsection \<open>The extension activator\<close>

lemma enable_statements_outcome:
  "snd (enable_statements w tool cmds) = Return None
   \<or> snd (enable_statements w tool cmds) = SysExit 1"
  by (induction cmds) (auto simp: Let_def split: proc_result.splits)

lemma enable_statements_exec:
  "Exec argv env \<in> set (fst (enable_statements w tool cmds)) \<Longrightarrow>
     env = pg_env \<and> (\<exists>sql \<in> set cmds. argv = psql_command tool sql)"
  by (induction cmds) (auto simp: Let_def launch_no_exec split: proc_result.splits if_splits)

lemma enable_statements_Cons_fatal:
  assumes "subprocess_run w (psql_command tool sql) pg_env = Exited returncode err_msg"
    and "returncode \<noteq> 0" and "postgis_files_missing err_msg"
  shows "enable_statements w tool (sql # rest)
           = ([Exec (psql_command tool sql) pg_env, Print Stderr MsgFaltaPostgis]
                @ fst (launch_stackbuilder_from_error w err_msg), SysExit 1)"
  using assms by simp

lemma enable_statements_Cons_benign:
  assumes "\<not> reports_missing_postgis (subprocess_run w (psql_command tool sql) pg_env)"
  shows "\<exists>s m. enable_statements w tool (sql # rest)
           = after [Exec (psql_command tool sql) pg_env, Print s m]
               (enable_statements w tool rest)"
proof (cases "subprocess_run w (psql_command tool sql) pg_env")
  case Raised
  then have "enable_statements w tool (sql # rest)
           = after [Exec (psql_command tool sql) pg_env, Print Stdout MsgErrorActivando]
               (enable_statements w tool rest)"
    by simp
  then show ?thesis by blast
next
  case (Exited returncode err_msg)
  show ?thesis
  proof (cases "returncode = 0")
    case True
    with Exited have "enable_statements w tool (sql # rest)
           = after [Exec (psql_command tool sql) pg_env, Print Stdout (MsgEjecutado sql)]
               (enable_statements w tool rest)"
      by simp
    then show ?thesis by blast
  next
    case False
    with Exited assms have "enable_statements w tool (sql # rest)
           = after [Exec (psql_command tool sql) pg_env, Print Stderr (MsgErrorSQL err_msg)]
               (enable_statements w tool rest)"
      by simp
    then show ?thesis by blast
  qed
qed

lemma enable_statements_fatal:
  assumes "Exec argv env \<in> set (fst (enable_statements w tool cmds))"
    and "subprocess_run w argv env = Exited returncode err_msg"
    and "returncode \<noteq> 0" and "postgis_files_missing err_msg"
  shows "snd (enable_statements w tool cmds) = SysExit 1
         \<and> (\<exists>pre. fst (enable_statements w tool cmds)
                = pre @ [Exec argv env, Print Stderr MsgFaltaPostgis]
                    @ fst (launch_stackbuilder_from_error w err_msg))"
  using assms(1)
proof (induction cmds)
  case Nil
  then show ?case by simp
next
  case (Cons sql rest)
  let ?cmd = "psql_command tool sql"
  show ?case
  proof (cases "reports_missing_postgis (subprocess_run w ?cmd pg_env)")
    case True
    then obtain rc e where res: "subprocess_run w ?cmd pg_env = Exited rc e"
      and rc: "rc \<noteq> 0" and e: "postgis_files_missing e"
      by (cases "subprocess_run w ?cmd pg_env") auto
    note unfold = enable_statements_Cons_fatal [OF res rc e, of rest]
    from Cons.prems have "argv = ?cmd \<and> env = pg_env"
      unfolding unfold by (simp add: launch_no_exec)
    with res assms(2) have "e = err_msg"
      by simp
    with \<open>argv = ?cmd \<and> env = pg_env\<close> show ?thesis
      unfolding unfold by simp
  next
    case False
    from enable_statements_Cons_benign [OF False, of rest] obtain s m where
      unfold: "enable_statements w tool (sql # rest)
                 = after [Exec ?cmd pg_env, Print s m] (enable_statements w tool rest)"
      by blast
    have "\<not> (argv = ?cmd \<and> env = pg_env)"
      using False assms(2-4) by auto
    with Cons.prems have "Exec argv env \<in> set (fst (enable_statements w tool rest))"
      unfolding unfold by auto
    from Cons.IH [OF this] obtain pre where
      "snd (enable_statements w tool rest) = SysExit 1"
      "fst (enable_statements w tool rest)
         = pre @ [Exec argv env, Print Stderr MsgFaltaPostgis]
             @ fst (launch_stackbuilder_from_error w err_msg)"
      by blast
    then have "snd (enable_statements w tool (sql # rest)) = SysExit 1"
      and "fst (enable_statements w tool (sql # rest))
         = ([Exec ?cmd pg_env, Print s m] @ pre) @ [Exec argv env, Print Stderr MsgFaltaPostgis]
             @ fst (launch_stackbuilder_from_error w err_msg)"
      unfolding unfold by simp_all
    then show ?thesis
      by blast
  qed
qed

lemma force_enable_postgis_outcome:
  "(\<exists>r. snd (force_enable_postgis w) = Return r) \<or> snd (force_enable_postgis w) = SysExit 1"
  using enable_statements_outcome [of w _ postgis_commands]
  by (auto simp: force_enable_postgis_def split: option.splits)

lemma force_enable_postgis_exec:
  "Exec argv env \<in> set (fst (force_enable_postgis w)) \<Longrightarrow>
     env = pg_env \<and> is_activation_cmd argv"
  by (auto simp: force_enable_postgis_def activation_cmd_psql_command
      split: option.splits if_splits dest!: enable_statements_exec)

lemma force_enable_postgis_fatal:
  assumes "Exec argv env \<in> set (fst (force_enable_postgis w))"
    and "subprocess_run w argv env = Exited returncode err_msg"
    and "returncode \<noteq> 0" and "postgis_files_missing err_msg"
  shows "snd (force_enable_postgis w) = SysExit 1
         \<and> (\<exists>pre. fst (force_enable_postgis w)
                = pre @ [Exec argv env, Print Stderr MsgFaltaPostgis]
                    @ fst (launch_stackbuilder_from_error w err_msg))"
proof (cases "find_executable w ''psql''")
  case None
  with assms(1) show ?thesis
    by (simp add: force_enable_postgis_def)
next
  case (Some tool)
  show ?thesis
  proof (cases "tool = []")
    case True
    with Some assms(1) show ?thesis
      by (simp add: force_enable_postgis_def)
  next
    case False
    with Some have unfold: "force_enable_postgis w
        = after [Print Stdout MsgPaso1] (enable_statements w tool postgis_commands)"
      by (simp add: force_enable_postgis_def)
    with assms(1) have "Exec argv env \<in> set (fst (enable_statements w tool postgis_commands))"
      by simp
    from enable_statements_fatal [OF this assms(2-4)] obtain pre where
      "snd (enable_statements w tool postgis_commands) = SysExit 1"
      "fst (enable_statements w tool postgis_commands)
         = pre @ [Exec argv env, Print Stderr MsgFaltaPostgis]
             @ fst (launch_stackbuilder_from_error w err_msg)"
      by blast
    then have "snd (force_enable_postgis w) = SysExit 1"
      and "fst (force_enable_postgis w)
         = (Print Stdout MsgPaso1 # pre) @ [Exec argv env, Print Stderr MsgFaltaPostgis]
             @ fst (launch_stackbuilder_from_error w err_msg)"
      unfolding unfold by simp_all
    then show ?thesis
      by blast
  qed
qed

section \<open>Runs of the importers\<close>

subsection \<open>The steps after activation\<close>

lemma detect_no_exec: "Exec argv env \<notin> set (fst (detect_file_type w filepath))"
  by (simp add: detect_file_type_def Let_def split: option.splits)

lemma pg_restore_step_exec:
  "Exec argv env \<in> set (fst (pg_restore_step w filepath)) \<Longrightarrow>
     \<exists>tool. argv = pg_restore_command tool filepath"
  by (auto simp: pg_restore_step_def Let_def split: option.splits if_splits proc_result.splits)

lemma pg_restore_step_outcome: "snd (pg_restore_step w filepath) = Return ()"
  by (simp add: pg_restore_step_def Let_def split: option.splits proc_result.splits)

lemma psql_step_exec:
  "Exec argv env \<in> set (fst (psql_step w filepath)) \<Longrightarrow>
     env = pg_env \<and> (\<exists>tool. find_executable w ''psql'' = Some tool \<and> tool \<noteq> []
                         \<and> argv = psql_file_command tool filepath)"
  by (auto simp: psql_step_def Let_def split: option.splits if_splits proc_result.splits)

lemma psql_step_nonzero:
  assumes "find_executable w ''psql'' = Some tool" and "tool \<noteq> []"
    and "subprocess_run w (psql_file_command tool filepath) pg_env = Exited returncode err_msg"
    and "returncode \<noteq> 0"
  shows "psql_step w filepath
           = ([Exec (psql_file_command tool filepath) pg_env,
               Print Stderr (MsgErrorPsql returncode)], Return ())"
  using assms by (simp add: psql_step_def)

lemma ogr2ogr_exec:
  "Exec argv env \<in> set (fst (import_with_ogr2ogr w filepath)) \<Longrightarrow>
     \<exists>tool. argv = ogr2ogr_command tool filepath"
  by (auto simp: import_with_ogr2ogr_def Let_def split: option.splits proc_result.splits)

lemma import_with_pg_restore_activated:
  "import_with_pg_restore w filepath
     = activated w MsgPaso2Binario (pg_restore_step w filepath)"
  by (simp add: import_with_pg_restore_def activated_def)

lemma import_with_psql_activated:
  "import_with_psql w filepath = activated w MsgPaso2SQL (psql_step w filepath)"
  by (simp add: import_with_psql_def activated_def)

lemma activated_exit:
  "snd (force_enable_postgis w) = SysExit n \<Longrightarrow>
     activated w banner step = (Print Stdout banner # fst (force_enable_postgis w), SysExit n)"
  by (simp add: activated_def and_then_SysExit after_def)

lemma activated_return:
  "snd (force_enable_postgis w) = Return r \<Longrightarrow>
     activated w banner step
       = (Print Stdout banner # fst (force_enable_postgis w) @ fst step, snd step)"
  by (simp add: activated_def and_then_Return after_def)

lemma activated_fatal:
  assumes ex: "Exec argv env \<in> set (fst (activated w banner step))"
    and act: "is_activation_cmd argv"
    and step: "\<And>a e. Exec a e \<in> set (fst step) \<Longrightarrow> \<not> is_activation_cmd a"
    and res: "subprocess_run w argv env = Exited returncode err_msg"
    and rc: "returncode \<noteq> 0" and missing: "postgis_files_missing err_msg"
  shows "snd (activated w banner step) = SysExit 1
         \<and> (\<exists>pre. fst (activated w banner step)
                = pre @ [Exec argv env, Print Stderr MsgFaltaPostgis]
                    @ fst (launch_stackbuilder_from_error w err_msg))
         \<and> (\<forall>a e. Exec a e \<in> set (fst (activated w banner step)) \<longrightarrow> is_activation_cmd a)"
proof -
  have in_force: "Exec argv env \<in> set (fst (force_enable_postgis w))"
  proof (cases "snd (force_enable_postgis w)")
    case (Return r)
    from ex step act show ?thesis
      unfolding activated_return [OF Return] by auto
  next
    case (SysExit n)
    from ex show ?thesis
      unfolding activated_exit [OF SysExit] by auto
  next
    case (Uncaught e)
    with force_enable_postgis_outcome [of w] show ?thesis by auto
  qed
  from force_enable_postgis_fatal [OF in_force res rc missing] obtain pre where
    out: "snd (force_enable_postgis w) = SysExit 1" and
    tr: "fst (force_enable_postgis w)
          = pre @ [Exec argv env, Print Stderr MsgFaltaPostgis]
              @ fst (launch_stackbuilder_from_error w err_msg)"
    by blast
  have "fst (activated w banner step)
          = (Print Stdout banner # pre) @ [Exec argv env, Print Stderr MsgFaltaPostgis]
              @ fst (launch_stackbuilder_from_error w err_msg)"
    unfolding activated_exit [OF out] using tr by simp
  moreover have "\<forall>a e. Exec a e \<in> set (fst (activated w banner step)) \<longrightarrow> is_activation_cmd a"
    unfolding activated_exit [OF out] using force_enable_postgis_exec by auto
  moreover have "snd (activated w banner step) = SysExit 1"
    unfolding activated_exit [OF out] by simp
  ultimately show ?thesis
    by blast
qed

lemma dispatch_fatal:
  assumes ex: "Exec argv env \<in> set (fst (dispatch w file_type input_path))"
    and act: "is_activation_cmd argv"
    and res: "subprocess_run w argv env = Exited returncode err_msg"
    and rc: "returncode \<noteq> 0" and missing: "postgis_files_missing err_msg"
  shows "snd (dispatch w file_type input_path) = SysExit 1
         \<and> (\<exists>pre. fst (dispatch w file_type input_path)
                = pre @ [Exec argv env, Print Stderr MsgFaltaPostgis]
                    @ fst (launch_stackbuilder_from_error w err_msg))
         \<and> (\<forall>a e. Exec a e \<in> set (fst (dispatch w file_type input_path))
                \<longrightarrow> is_activation_cmd a)"
proof (cases file_type)
  case PG_DUMP_BINARY
  then have d: "dispatch w file_type input_path
                  = activated w MsgPaso2Binario (pg_restore_step w input_path)"
    by (simp add: dispatch_def import_with_pg_restore_activated)
  show ?thesis
    unfolding d
    by (rule activated_fatal [OF ex [unfolded d] act _ res rc missing])
       (auto dest!: pg_restore_step_exec simp: pg_restore_not_activation)
next
  case SQL_SCRIPT
  then have d: "dispatch w file_type input_path
                  = activated w MsgPaso2SQL (psql_step w input_path)"
    by (simp add: dispatch_def import_with_psql_activated)
  show ?thesis
    unfolding d
    by (rule activated_fatal [OF ex [unfolded d] act _ res rc missing])
       (auto dest!: psql_step_exec simp: psql_file_not_activation)
next
  case GEOPACKAGE
  with ex act show ?thesis
    by (auto simp: dispatch_def dest!: ogr2ogr_exec simp: ogr2ogr_not_activation)
next
  case UNKNOWN
  let ?r = "activated w MsgPaso2Binario (pg_restore_step w input_path)"
  from UNKNOWN have d: "dispatch w file_type input_path = after [Print Stdout MsgDesconocido] ?r"
    by (simp add: dispatch_def import_with_pg_restore_activated)
  from ex have ex': "Exec argv env \<in> set (fst ?r)"
    unfolding d by simp
  have "snd ?r = SysExit 1
         \<and> (\<exists>pre. fst ?r = pre @ [Exec argv env, Print Stderr MsgFaltaPostgis]
                    @ fst (launch_stackbuilder_from_error w err_msg))
         \<and> (\<forall>a e. Exec a e \<in> set (fst ?r) \<longrightarrow> is_activation_cmd a)"
    by (rule activated_fatal [OF ex' act _ res rc missing])
       (auto dest!: pg_restore_step_exec simp: pg_restore_not_activation)
  then obtain pre where "snd ?r = SysExit 1"
    and "fst ?r = pre @ [Exec argv env, Print Stderr MsgFaltaPostgis]
                    @ fst (launch_stackbuilder_from_error w err_msg)"
    and "\<forall>a e. Exec a e \<in> set (fst ?r) \<longrightarrow> is_activation_cmd a"
    by blast
  then have "snd (dispatch w file_type input_path) = SysExit 1"
    and "fst (dispatch w file_type input_path)
           = (Print Stdout MsgDesconocido # pre) @ [Exec argv env, Print Stderr MsgFaltaPostgis]
               @ fst (launch_stackbuilder_from_error w err_msg)"
    and "\<forall>a e. Exec a e \<in> set (fst (dispatch w file_type input_path)) \<longrightarrow> is_activation_cmd a"
    unfolding d by simp_all
  then show ?thesis
    by blast
qed

section \<open>Runs of the main block\<close>

lemma main_resolved:
  assumes "resolve_input_file w INPUT_FILENAME = Some input_path" and "input_path \<noteq> []"
  shows "main w
           = after (Print Stdout MsgIniciando # fst (detect_file_type w input_path)
                      @ [Print Stdout (MsgTipo (snd (detect_file_type w input_path)))])
               (dispatch w (snd (detect_file_type w input_path)) input_path)"
  using assms by (simp add: main_def after_def Let_def)

lemma main_exec:
  assumes "Exec argv env \<in> set (fst (main w))"
  obtains input_path where "resolve_input_file w INPUT_FILENAME = Some input_path"
    and "input_path \<noteq> []"
    and "Exec argv env \<in> set (fst (dispatch w (snd (detect_file_type w input_path)) input_path))"
proof (cases "resolve_input_file w INPUT_FILENAME")
  case None
  with assms show ?thesis
    by (simp add: main_def)
next
  case (Some input_path)
  show ?thesis
  proof (cases "input_path = []")
    case True
    with Some assms show ?thesis
      by (simp add: main_def)
  next
    case False
    from assms have "Exec argv env \<in> set (fst (dispatch w (snd (detect_file_type w input_path)) input_path))"
      unfolding main_resolved [OF Some False] by (simp add: detect_no_exec)
    with Some False that show ?thesis
      by blast
  qed
qed

lemma activated_exec_cases:
  assumes "Exec argv env \<in> set (fst (activated w banner step))"
  shows "Exec argv env \<in> set (fst (force_enable_postgis w))
         \<or> (\<exists>r. snd (force_enable_postgis w) = Return r \<and> Exec argv env \<in> set (fst step))"
proof (cases "snd (force_enable_postgis w)")
  case (Return r)
  with assms show ?thesis
    unfolding activated_return [OF Return] by auto
next
  case (SysExit n)
  with assms show ?thesis
    unfolding activated_exit [OF SysExit] by auto
next
  case (Uncaught e)
  with force_enable_postgis_outcome [of w] show ?thesis
    by auto
qed

lemma activated_pg_restore_no_psql_file:
  "Exec (psql_file_command tool filepath) env
     \<notin> set (fst (activated w banner (pg_restore_step w input_path)))"
proof
  assume "Exec (psql_file_command tool filepath) env
            \<in> set (fst (activated w banner (pg_restore_step w input_path)))"
  from activated_exec_cases [OF this] show False
    using psql_file_not_activation psql_file_not_pg_restore
    by (auto dest!: force_enable_postgis_exec pg_restore_step_exec)
qed

lemma dispatch_psql_nonzero:
  assumes ex: "Exec (psql_file_command tool filepath) env
                 \<in> set (fst (dispatch w file_type input_path))"
    and res: "subprocess_run w (psql_file_command tool filepath) env = Exited returncode err_msg"
    and rc: "returncode \<noteq> 0"
  shows "snd (dispatch w file_type input_path) = Return ()
         \<and> (\<exists>pre. fst (dispatch w file_type input_path)
                = pre @ [Exec (psql_file_command tool filepath) env,
                         Print Stderr (MsgErrorPsql returncode)])"
proof (cases file_type)
  case PG_DUMP_BINARY
  with ex show ?thesis
    by (simp add: dispatch_def import_with_pg_restore_activated activated_pg_restore_no_psql_file)
next
  case UNKNOWN
  with ex show ?thesis
    by (simp add: dispatch_def import_with_pg_restore_activated activated_pg_restore_no_psql_file)
next
  case GEOPACKAGE
  with ex show ?thesis
    using psql_file_not_ogr2ogr by (auto simp: dispatch_def dest!: ogr2ogr_exec)
next
  case SQL_SCRIPT
  then have d: "dispatch w file_type input_path = activated w MsgPaso2SQL (psql_step w input_path)"
    by (simp add: dispatch_def import_with_psql_activated)
  from activated_exec_cases [OF ex [unfolded d]] obtain r where
    ret: "snd (force_enable_postgis w) = Return r" and
    step: "Exec (psql_file_command tool filepath) env \<in> set (fst (psql_step w input_path))"
    using psql_file_not_activation by (auto dest!: force_enable_postgis_exec)
  from psql_step_exec [OF step] have env: "env = pg_env"
    and found: "find_executable w ''psql'' = Some tool" "tool \<noteq> []"
    and path: "filepath = input_path"
    by (auto simp: psql_file_command_inject)
  from psql_step_nonzero [OF found res [unfolded env] rc] path
  have "psql_step w input_path
           = ([Exec (psql_file_command tool filepath) pg_env,
               Print Stderr (MsgErrorPsql returncode)], Return ())"
    by simp
  then have "snd (dispatch w file_type input_path) = Return ()"
    and "fst (dispatch w file_type input_path)
           = (Print Stdout MsgPaso2SQL # fst (force_enable_postgis w))
               @ [Exec (psql_file_command tool filepath) env,
                  Print Stderr (MsgErrorPsql returncode)]"
    unfolding d activated_return [OF ret] env by simp_all
  then show ?thesis
    by blast
qed

subsection \<open>Commands of a run\<close>

lemma commands_run_Nil [simp]: "commands_run [] = []"
  by (simp add: commands_run_def)

lemma commands_run_Cons [simp]:
  "commands_run (e # tr)
     = (case exec_argv e of None \<Rightarrow> commands_run tr | Some argv \<Rightarrow> argv # commands_run tr)"
  by (simp add: commands_run_def List.map_filter_simps split: option.splits)

lemma commands_run_append [simp]:
  "commands_run (tr @ tr') = commands_run tr @ commands_run tr'"
  by (induction tr) (auto split: option.splits)

lemma set_commands_run: "argv \<in> set (commands_run tr) \<longleftrightarrow> (\<exists>env. Exec argv env \<in> set tr)"
proof (induction tr)
  case Nil
  then show ?case by simp
next
  case (Cons e tr)
  then show ?case by (cases e) auto
qed

lemma commands_run_detect [simp]: "commands_run (fst (detect_file_type w filepath)) = []"
  by (simp add: detect_file_type_def Let_def split: option.splits)

lemma enable_statements_benign:
  assumes "\<forall>sql \<in> set cmds.
             \<not> reports_missing_postgis (subprocess_run w (psql_command tool sql) pg_env)"
  shows "snd (enable_statements w tool cmds) = Return None
         \<and> commands_run (fst (enable_statements w tool cmds)) = map (psql_command tool) cmds"
  using assms
proof (induction cmds)
  case Nil
  then show ?case by simp
next
  case (Cons sql rest)
  then have "\<not> reports_missing_postgis (subprocess_run w (psql_command tool sql) pg_env)"
    by simp
  from enable_statements_Cons_benign [OF this, of rest] obtain s m where
    "enable_statements w tool (sql # rest)
       = after [Exec (psql_command tool sql) pg_env, Print s m] (enable_statements w tool rest)"
    by blast
  with Cons show ?case
    by simp
qed

lemma force_enable_postgis_benign:
  assumes "find_executable w ''psql'' = Some tool" and "tool \<noteq> []"
    and "\<forall>sql \<in> set postgis_commands.
           \<not> reports_missing_postgis (subprocess_run w (psql_command tool sql) pg_env)"
  shows "snd (force_enable_postgis w) = Return None
         \<and> commands_run (fst (force_enable_postgis w))
             = map (psql_command tool) postgis_commands"
  using assms(1,2) enable_statements_benign [OF assms(3)]
  by (simp add: force_enable_postgis_def)

lemma force_enable_postgis_no_psql:
  assumes "\<not> truthy (find_executable w ''psql'')"
  shows "force_enable_postgis w
           = ([Print Stdout MsgPaso1, Print Stderr MsgNoPsqlPostgis], Return (Some False))"
  using assms by (cases "find_executable w ''psql''") (simp_all add: force_enable_postgis_def)

lemma pg_restore_step_found:
  assumes "find_executable w ''pg_restore'' = Some tool" and "tool \<noteq> []"
  shows "snd (pg_restore_step w filepath) = Return ()
         \<and> commands_run (fst (pg_restore_step w filepath)) = [pg_restore_command tool filepath]"
  using assms by (simp add: pg_restore_step_def Let_def split: proc_result.splits)

lemma psql_step_no_psql:
  assumes "\<not> truthy (find_executable w ''psql'')"
  shows "psql_step w filepath = ([Print Stderr MsgNoPsql], Return ())"
  using assms by (cases "find_executable w ''psql''") (simp_all add: psql_step_def)

section \<open>Evaluation on the sample worlds\<close>

text \<open>The definitions to unfold when a run is computed on a concrete world.\<close>

lemmas config_defs =
  DB_HOST_def DB_PORT_def DB_NAME_def DB_USER_def DB_PASSWORD_def INPUT_FILENAME_def

lemmas world_defs =
  sample_world_def sample_which_def with_file_def world_no_input_def
  world_missing_postgis_def world_psql_fails_def no_tools_def no_psql_def
  sqlite_file_def plain_file_def

lemmas program_defs =
  main_def dispatch_def resolve_input_file_def detect_file_type_def
  import_with_pg_restore_def import_with_psql_def import_with_ogr2ogr_def
  pg_restore_step_def psql_step_def force_enable_postgis_def
  find_executable_def common_paths_def and_then_def after_def
  postgis_commands_def PGDMP_magic_def SQLite_magic_def
  text_start_def has_sql_marker_def code_points_def str_upper_def upper_cp_def

subsection \<open>Sample runs\<close>

lemma main_psql_fails:
  "main world_psql_fails
     = ([Print Stdout MsgIniciando,
         OpenFile ''/opt/restore/GisTPI'' True, OpenFile ''/opt/restore/GisTPI'' False,
         Print Stdout (MsgTipo SQL_SCRIPT), Print Stdout MsgPaso2SQL, Print Stdout MsgPaso1,
         Exec (psql_command ''/usr/bin/psql''
                 ''CREATE EXTENSION IF NOT EXISTS postgis CASCADE;'') pg_env,
         Print Stdout (MsgEjecutado ''CREATE EXTENSION IF NOT EXISTS postgis CASCADE;''),
         Exec (psql_command ''/usr/bin/psql''
                 ''CREATE EXTENSION IF NOT EXISTS postgis_topology;'') pg_env,
         Print Stdout (MsgEjecutado ''CREATE EXTENSION IF NOT EXISTS postgis_topology;''),
         Exec (psql_file_command ''/usr/bin/psql'' ''/opt/restore/GisTPI'') pg_env,
         Print Stderr (MsgErrorPsql 3)], Return ())"
  by (simp add: program_defs world_defs INPUT_FILENAME_def sublist_Cons_right
      psql_file_not_psql_command [symmetric])

lemma main_sample:
  "main sample_world
     = ([Print Stdout MsgIniciando, OpenFile ''/opt/restore/GisTPI'' True,
         Print Stdout (MsgTipo PG_DUMP_BINARY), Print Stdout MsgPaso2Binario,
         Print Stdout MsgPaso1,
         Exec (psql_command ''/usr/bin/psql''
                 ''CREATE EXTENSION IF NOT EXISTS postgis CASCADE;'') pg_env,
         Print Stdout (MsgEjecutado ''CREATE EXTENSION IF NOT EXISTS postgis CASCADE;''),
         Exec (psql_command ''/usr/bin/psql''
                 ''CREATE EXTENSION IF NOT EXISTS postgis_topology;'') pg_env,
         Print Stdout (MsgEjecutado ''CREATE EXTENSION IF NOT EXISTS postgis_topology;''),
         Print Stdout MsgEjecutandoRestauracion,
         Exec (pg_restore_command ''/usr/bin/pg_restore'' ''/opt/restore/GisTPI'') pg_env,
         Print Stdout MsgProcesoFinalizado], Return ())"
  by (simp add: program_defs world_defs INPUT_FILENAME_def)

lemma launch_missing_postgis:
  "launch_stackbuilder_from_error world_missing_postgis missing_postgis_error
     = ([Print Stdout MsgLocalizando, Print Stdout MsgNoStackbuilder,
         Print Stdout MsgAbriendoPagina, Browser postgis_install_url], Return False)"
  by (simp add: launch_stackbuilder_from_error_def locate_stackbuilder_def
      deduce_base_path_def missing_postgis_error_def str_find_def slice_def strip_def
      backslash_def sublist_Cons_right world_defs)

lemma missing_postgis_error_fatal: "postgis_files_missing missing_postgis_error"
  by (simp add: postgis_files_missing_def missing_postgis_error_def sublist_Cons_right)

lemma main_missing_postgis:
  "main world_missing_postgis
     = ([Print Stdout MsgIniciando, OpenFile ''/opt/restore/GisTPI'' True,
         Print Stdout (MsgTipo PG_DUMP_BINARY), Print Stdout MsgPaso2Binario,
         Print Stdout MsgPaso1,
         Exec (psql_command ''/usr/bin/psql''
                 ''CREATE EXTENSION IF NOT EXISTS postgis CASCADE;'') pg_env,
         Print Stderr MsgFaltaPostgis,
         Print Stdout MsgLocalizando, Print Stdout MsgNoStackbuilder,
         Print Stdout MsgAbriendoPagina, Browser postgis_install_url], SysExit 1)"
proof -
  have run: "subprocess_run world_missing_postgis
               (psql_command ''/usr/bin/psql''
                  ''CREATE EXTENSION IF NOT EXISTS postgis CASCADE;'') pg_env
             = Exited 1 missing_postgis_error"
    by (simp add: world_missing_postgis_def activation_cmd_psql_command postgis_commands_def)
  have "enable_statements world_missing_postgis ''/usr/bin/psql'' postgis_commands
          = ([Exec (psql_command ''/usr/bin/psql''
                 ''CREATE EXTENSION IF NOT EXISTS postgis CASCADE;'') pg_env,
              Print Stderr MsgFaltaPostgis,
              Print Stdout MsgLocalizando, Print Stdout MsgNoStackbuilder,
              Print Stdout MsgAbriendoPagina, Browser postgis_install_url], SysExit 1)"
    unfolding postgis_commands_def
    using enable_statements_Cons_fatal [OF run _ missing_postgis_error_fatal]
    by (simp add: launch_missing_postgis)
  moreover have "find_executable world_missing_postgis ''psql'' = Some ''/usr/bin/psql''"
    by (simp add: find_executable_def world_defs)
  moreover have "resolve_input_file world_missing_postgis INPUT_FILENAME
                   = Some ''/opt/restore/GisTPI''"
    by (simp add: resolve_input_file_def world_defs INPUT_FILENAME_def)
  moreover have "detect_file_type world_missing_postgis ''/opt/restore/GisTPI''
                   = ([OpenFile ''/opt/restore/GisTPI'' True], PG_DUMP_BINARY)"
    by (simp add: detect_file_type_def world_defs PGDMP_magic_def)
  ultimately show ?thesis
    by (simp add: main_def dispatch_def import_with_pg_restore_def force_enable_postgis_def
        and_then_def after_def)
qed

section \<open>Claims about whole runs\<close>

subsection \<open>Missing extension files\<close>

text \<open>
  C3. Whenever a run executes an activation statement and psql fails on it with an
  error text that has both \<^verbatim>\<open>No such file or directory\<close> and \<^verbatim>\<open>postgis.control\<close> in it,
  the run is over right after the recovery action: its trace ends with that statement,
  the complaint on the error stream and the events of \<open>launch_stackbuilder_from_error\<close>,
  among which is the start of the installer or the opening of the browser; the exit
  status is 1; and none of the three import commands is run, whatever the tool and the
  file.
\<close>

theorem missing_postgis_stops_the_run:
  assumes "Exec argv env \<in> set (fst (main w))" and "is_activation_cmd argv"
    and "subprocess_run w argv env = Exited returncode err_msg" and "returncode \<noteq> 0"
    and "sublist ''No such file or directory'' err_msg"
    and "sublist ''postgis.control'' err_msg"
  shows "snd (main w) = SysExit 1 \<and> exit_status (snd (main w)) \<noteq> 0
         \<and> (\<exists>pre. fst (main w)
                = pre @ [Exec argv env, Print Stderr MsgFaltaPostgis]
                    @ fst (launch_stackbuilder_from_error w err_msg))
         \<and> (\<exists>e \<in> set (fst (launch_stackbuilder_from_error w err_msg)). is_recovery e)
         \<and> (\<forall>tool filepath env'.
               Exec (pg_restore_command tool filepath) env' \<notin> set (fst (main w))
               \<and> Exec (psql_file_command tool filepath) env' \<notin> set (fst (main w))
               \<and> Exec (ogr2ogr_command tool filepath) env' \<notin> set (fst (main w)))"
proof -
  from assms(1) obtain input_path where
    resolved: "resolve_input_file w INPUT_FILENAME = Some input_path" "input_path \<noteq> []"
    and ex: "Exec argv env
               \<in> set (fst (dispatch w (snd (detect_file_type w input_path)) input_path))"
    by (rule main_exec)
  let ?d = "dispatch w (snd (detect_file_type w input_path)) input_path"
  have missing: "postgis_files_missing err_msg"
    using assms(5,6) by (simp add: postgis_files_missing_def)
  from dispatch_fatal [OF ex assms(2,3,4) missing] obtain pre where
    out: "snd ?d = SysExit 1" and
    tr: "fst ?d = pre @ [Exec argv env, Print Stderr MsgFaltaPostgis]
                    @ fst (launch_stackbuilder_from_error w err_msg)" and
    only: "\<forall>a e. Exec a e \<in> set (fst ?d) \<longrightarrow> is_activation_cmd a"
    by blast
  note m = main_resolved [OF resolved]
  have 1: "snd (main w) = SysExit 1"
    unfolding m using out by simp
  have 2: "fst (main w)
             = (Print Stdout MsgIniciando # fst (detect_file_type w input_path)
                  @ [Print Stdout (MsgTipo (snd (detect_file_type w input_path)))] @ pre)
               @ [Exec argv env, Print Stderr MsgFaltaPostgis]
               @ fst (launch_stackbuilder_from_error w err_msg)"
    unfolding m using tr by simp
  have 3: "\<forall>a e. Exec a e \<in> set (fst (main w)) \<longrightarrow> is_activation_cmd a"
    unfolding m using only by (auto simp: detect_no_exec)
  have 4: "\<forall>tool filepath env'.
               Exec (pg_restore_command tool filepath) env' \<notin> set (fst (main w))
               \<and> Exec (psql_file_command tool filepath) env' \<notin> set (fst (main w))
               \<and> Exec (ogr2ogr_command tool filepath) env' \<notin> set (fst (main w))"
    using 3 pg_restore_not_activation psql_file_not_activation ogr2ogr_not_activation
    by blast
  have 5: "exit_status (snd (main w)) \<noteq> 0"
    using 1 by simp
  have 6: "\<exists>pre. fst (main w)
                = pre @ [Exec argv env, Print Stderr MsgFaltaPostgis]
                    @ fst (launch_stackbuilder_from_error w err_msg)"
    using 2 by blast
  from 1 5 6 launch_recovery [of w err_msg] 4 show ?thesis
    by (intro conjI)
qed

theorem missing_postgis_witness:
  "Exec (psql_command ''/usr/bin/psql'' ''CREATE EXTENSION IF NOT EXISTS postgis CASCADE;'')
        pg_env \<in> set (fst (main world_missing_postgis))
   \<and> subprocess_run world_missing_postgis
        (psql_command ''/usr/bin/psql'' ''CREATE EXTENSION IF NOT EXISTS postgis CASCADE;'')
        pg_env = Exited 1 missing_postgis_error
   \<and> sublist ''No such file or directory'' missing_postgis_error
   \<and> sublist ''postgis.control'' missing_postgis_error
   \<and> snd (main world_missing_postgis) = SysExit 1
   \<and> Browser postgis_install_url \<in> set (fst (main world_missing_postgis))
   \<and> commands_run (fst (main world_missing_postgis))
       = [psql_command ''/usr/bin/psql'' ''CREATE EXTENSION IF NOT EXISTS postgis CASCADE;'']"
proof -
  let ?cmd = "psql_command ''/usr/bin/psql'' ''CREATE EXTENSION IF NOT EXISTS postgis CASCADE;''"
  have h1: "Exec ?cmd pg_env \<in> set (fst (main world_missing_postgis))"
    by (simp add: main_missing_postgis)
  have h2: "is_activation_cmd ?cmd"
    by (simp add: activation_cmd_psql_command postgis_commands_def)
  have h3: "subprocess_run world_missing_postgis ?cmd pg_env = Exited 1 missing_postgis_error"
    using h2 by (simp add: world_missing_postgis_def)
  have h4: "(1::int) \<noteq> 0"
    by simp
  have h5: "sublist ''No such file or directory'' missing_postgis_error"
    and h6: "sublist ''postgis.control'' missing_postgis_error"
    using missing_postgis_error_fatal by (simp_all add: postgis_files_missing_def)
  from missing_postgis_stops_the_run [OF h1 h2 h3 h4 h5 h6]
  have "snd (main world_missing_postgis) = SysExit 1"
    by blast
  with h1 h3 h5 h6 show ?thesis
    by (simp add: main_missing_postgis)
qed

subsection \<open>A failing script import\<close>

text \<open>
  C1, as the code has it. Whenever a run executes psql on the script file and psql exits
  with a status other than zero, the last thing the run does is report the failure with
  that status on the error stream; the main block then ends normally and the exit status
  of the process is 0.
\<close>

theorem psql_failure_reported_exit_zero:
  assumes "Exec (psql_file_command tool filepath) env \<in> set (fst (main w))"
    and "subprocess_run w (psql_file_command tool filepath) env = Exited returncode err_msg"
    and "returncode \<noteq> 0"
  shows "snd (main w) = Return () \<and> exit_status (snd (main w)) = 0
         \<and> (\<exists>pre. fst (main w)
                = pre @ [Exec (psql_file_command tool filepath) env,
                         Print Stderr (MsgErrorPsql returncode)])"
proof -
  from assms(1) obtain input_path where
    resolved: "resolve_input_file w INPUT_FILENAME = Some input_path" "input_path \<noteq> []"
    and ex: "Exec (psql_file_command tool filepath) env
               \<in> set (fst (dispatch w (snd (detect_file_type w input_path)) input_path))"
    by (rule main_exec)
  let ?d = "dispatch w (snd (detect_file_type w input_path)) input_path"
  from dispatch_psql_nonzero [OF ex assms(2,3)] obtain pre where
    out: "snd ?d = Return ()" and
    tr: "fst ?d = pre @ [Exec (psql_file_command tool filepath) env,
                         Print Stderr (MsgErrorPsql returncode)]"
    by blast
  note m = main_resolved [OF resolved]
  have 1: "snd (main w) = Return ()"
    unfolding m using out by simp
  have 2: "fst (main w)
             = (Print Stdout MsgIniciando # fst (detect_file_type w input_path)
                  @ [Print Stdout (MsgTipo (snd (detect_file_type w input_path)))] @ pre)
               @ [Exec (psql_file_command tool filepath) env,
                  Print Stderr (MsgErrorPsql returncode)]"
    unfolding m using tr by simp
  have 3: "exit_status (snd (main w)) = 0"
    using 1 by simp
  have 4: "\<exists>pre. fst (main w)
                = pre @ [Exec (psql_file_command tool filepath) env,
                         Print Stderr (MsgErrorPsql returncode)]"
    using 2 by blast
  from 1 3 4 show ?thesis
    by (intro conjI)
qed

theorem psql_failure_reported_witness:
  "Exec (psql_file_command ''/usr/bin/psql'' ''/opt/restore/GisTPI'') pg_env
       \<in> set (fst (main world_psql_fails))
   \<and> subprocess_run world_psql_fails
        (psql_file_command ''/usr/bin/psql'' ''/opt/restore/GisTPI'') pg_env = Exited 3 []
   \<and> snd (main world_psql_fails) = Return ()
   \<and> exit_status (snd (main world_psql_fails)) = 0
   \<and> last (fst (main world_psql_fails)) = Print Stderr (MsgErrorPsql 3)"
proof -
  let ?cmd = "psql_file_command ''/usr/bin/psql'' ''/opt/restore/GisTPI''"
  have h1: "Exec ?cmd pg_env \<in> set (fst (main world_psql_fails))"
    by (simp add: main_psql_fails)
  have h2: "subprocess_run world_psql_fails ?cmd pg_env = Exited 3 []"
    by (simp add: world_defs)
  have h3: "(3::int) \<noteq> 0"
    by simp
  from psql_failure_reported_exit_zero [OF h1 h2 h3] obtain pre where
    "snd (main world_psql_fails) = Return ()" "exit_status (snd (main world_psql_fails)) = 0"
    "fst (main world_psql_fails) = pre @ [Exec ?cmd pg_env, Print Stderr (MsgErrorPsql 3)]"
    by blast
  with h1 h2 show ?thesis
    by simp
qed

text \<open>
  C1, as the specification has it, fails: psql exits with status 3 on the script and the
  exit status of the process is 0.
\<close>

theorem psql_failure_exit_status_counterexample:
  "snd (detect_file_type world_psql_fails ''/opt/restore/GisTPI'') = SQL_SCRIPT
   \<and> Exec (psql_file_command ''/usr/bin/psql'' ''/opt/restore/GisTPI'') pg_env
       \<in> set (fst (main world_psql_fails))
   \<and> subprocess_run world_psql_fails
        (psql_file_command ''/usr/bin/psql'' ''/opt/restore/GisTPI'') pg_env = Exited 3 []
   \<and> exit_status (snd (main world_psql_fails)) = 0"
  by (simp add: main_psql_fails)
     (simp add: world_defs detect_file_type_def PGDMP_magic_def SQLite_magic_def
        text_start_def has_sql_marker_def code_points_def str_upper_def upper_cp_def
        sublist_Cons_right)

subsection \<open>The binary-dump path\<close>

text \<open>
  C4. Take a run whose input file resolves, is readable and starts with \<^verbatim>\<open>PGDMP\<close>, on a
  machine where psql and pg_restore are found and no activation statement fails on
  missing extension files. The file is classified as a binary dump, and the commands of
  the run are, in this order: psql with the first enable-extension statement, psql with
  the second, and pg_restore with the connection parameters, the switches
  \<^verbatim>\<open>-v -c --if-exists --no-owner --no-acl\<close> and nothing else but the resolved path.
\<close>

theorem binary_dump_end_to_end:
  assumes "resolve_input_file w INPUT_FILENAME = Some input_path" and "input_path \<noteq> []"
    and "read_file w input_path = Some bytes" and "prefix ''PGDMP'' bytes"
    and "find_executable w ''psql'' = Some psql" and "psql \<noteq> []"
    and "find_executable w ''pg_restore'' = Some pg_restore" and "pg_restore \<noteq> []"
    and "\<forall>sql \<in> set postgis_commands.
           \<not> reports_missing_postgis (subprocess_run w (psql_command psql sql) pg_env)"
  shows "snd (detect_file_type w input_path) = PG_DUMP_BINARY
         \<and> commands_run (fst (main w))
             = [psql_command psql ''CREATE EXTENSION IF NOT EXISTS postgis CASCADE;'',
                psql_command psql ''CREATE EXTENSION IF NOT EXISTS postgis_topology;'',
                pg_restore_command pg_restore input_path]
         \<and> pg_restore_command pg_restore input_path
             = [pg_restore, ''-h'', ''localhost'', ''-p'', ''5433'', ''-U'', ''postgres'',
                ''-d'', ''geoserver'',
                ''-v'', ''-c'', ''--if-exists'', ''--no-owner'', ''--no-acl'', input_path]
         \<and> snd (main w) = Return ()"
proof -
  have det: "detect_file_type w input_path = ([OpenFile input_path True], PG_DUMP_BINARY)"
    using assms(3,4) by (simp add: detect_pgdmp PGDMP_magic_def)
  from force_enable_postgis_benign [OF assms(5,6,9)] have
    act: "snd (force_enable_postgis w) = Return None"
         "commands_run (fst (force_enable_postgis w)) = map (psql_command psql) postgis_commands"
    by simp_all
  from pg_restore_step_found [OF assms(7,8), of input_path] have
    step: "snd (pg_restore_step w input_path) = Return ()"
          "commands_run (fst (pg_restore_step w input_path))
             = [pg_restore_command pg_restore input_path]"
    by simp_all
  have m: "main w = after [Print Stdout MsgIniciando, OpenFile input_path True,
                           Print Stdout (MsgTipo PG_DUMP_BINARY)]
                      (activated w MsgPaso2Binario (pg_restore_step w input_path))"
    unfolding main_resolved [OF assms(1,2)] det
    by (simp add: dispatch_def import_with_pg_restore_activated)
  have 1: "commands_run (fst (main w))
             = map (psql_command psql) postgis_commands
                 @ [pg_restore_command pg_restore input_path]"
    unfolding m activated_return [OF act(1)] using act(2) step(2) by simp
  have 2: "snd (main w) = Return ()"
    unfolding m activated_return [OF act(1)] using step(1) by simp
  have 3: "pg_restore_command pg_restore input_path
             = [pg_restore, ''-h'', ''localhost'', ''-p'', ''5433'', ''-U'', ''postgres'',
                ''-d'', ''geoserver'',
                ''-v'', ''-c'', ''--if-exists'', ''--no-owner'', ''--no-acl'', input_path]"
    by (simp add: pg_restore_command_def connection_args_def config_defs)
  from det 1 2 3 show ?thesis
    by (simp add: postgis_commands_def)
qed

theorem binary_dump_witness:
  "resolve_input_file sample_world INPUT_FILENAME = Some ''/opt/restore/GisTPI''
   \<and> read_file sample_world ''/opt/restore/GisTPI'' = Some ''PGDMP dump''
   \<and> find_executable sample_world ''psql'' = Some ''/usr/bin/psql''
   \<and> find_executable sample_world ''pg_restore'' = Some ''/usr/bin/pg_restore''
   \<and> snd (detect_file_type sample_world ''/opt/restore/GisTPI'') = PG_DUMP_BINARY
   \<and> commands_run (fst (main sample_world))
       = [psql_command ''/usr/bin/psql'' ''CREATE EXTENSION IF NOT EXISTS postgis CASCADE;'',
          psql_command ''/usr/bin/psql'' ''CREATE EXTENSION IF NOT EXISTS postgis_topology;'',
          [''/usr/bin/pg_restore'', ''-h'', ''localhost'', ''-p'', ''5433'', ''-U'',
           ''postgres'', ''-d'', ''geoserver'', ''-v'', ''-c'', ''--if-exists'',
           ''--no-owner'', ''--no-acl'', ''/opt/restore/GisTPI'']]"
proof -
  have h1: "resolve_input_file sample_world INPUT_FILENAME = Some ''/opt/restore/GisTPI''"
    by (simp add: resolve_input_file_def world_defs INPUT_FILENAME_def)
  have h2: "''/opt/restore/GisTPI'' \<noteq> []"
    by simp
  have h3: "read_file sample_world ''/opt/restore/GisTPI'' = Some ''PGDMP dump''"
    by (simp add: world_defs)
  have h4: "prefix ''PGDMP'' ''PGDMP dump''"
    by simp
  have h5: "find_executable sample_world ''psql'' = Some ''/usr/bin/psql''"
    by (simp add: find_executable_def world_defs)
  have h6: "''/usr/bin/psql'' \<noteq> []"
    by simp
  have h7: "find_executable sample_world ''pg_restore'' = Some ''/usr/bin/pg_restore''"
    by (simp add: find_executable_def world_defs)
  have h8: "''/usr/bin/pg_restore'' \<noteq> []"
    by simp
  have h9: "\<forall>sql \<in> set postgis_commands.
           \<not> reports_missing_postgis
               (subprocess_run sample_world (psql_command ''/usr/bin/psql'' sql) pg_env)"
    by (simp add: world_defs)
  from binary_dump_end_to_end [OF h1 h2 h3 h4 h5 h6 h7 h8 h9] h1 h3 h5 h7 show ?thesis
    by simp
qed

subsection \<open>The spatial-package path\<close>

text \<open>
  C5. In a run whose input resolves and is classified as GEOPACKAGE, on a machine where
  ogr2ogr is found, the whole trace is: the opening line, the opening of the file, the
  format line, the banner of the converter and one command, ogr2ogr with the output
  format, the connection string of the database, the resolved path and
  \<^verbatim>\<open>-overwrite -nln GisTPI_import\<close>. No activation statement is in it, and the banner
  of the activator is never printed.
\<close>

theorem geopackage_end_to_end:
  assumes "resolve_input_file w INPUT_FILENAME = Some input_path" and "input_path \<noteq> []"
    and "snd (detect_file_type w input_path) = GEOPACKAGE"
    and "find_executable w ''ogr2ogr'' = Some ogr2ogr"
  shows "fst (main w)
           = Print Stdout MsgIniciando # fst (detect_file_type w input_path)
               @ [Print Stdout (MsgTipo GEOPACKAGE), Print Stdout MsgOgr2ogr,
                  Exec (ogr2ogr_command ogr2ogr input_path) []]
         \<and> commands_run (fst (main w)) = [ogr2ogr_command ogr2ogr input_path]
         \<and> ogr2ogr_command ogr2ogr input_path
             = [ogr2ogr, ''-f'', ''PostgreSQL'',
                ''PG:host=localhost port=5433 dbname=geoserver user=postgres password=postgres'',
                input_path, ''-overwrite'', ''-nln'', ''GisTPI_import'']
         \<and> (\<forall>argv \<in> set (commands_run (fst (main w))). \<not> is_activation_cmd argv)
         \<and> Print Stdout MsgPaso1 \<notin> set (fst (main w))"
proof -
  have 1: "fst (main w)
           = Print Stdout MsgIniciando # fst (detect_file_type w input_path)
               @ [Print Stdout (MsgTipo GEOPACKAGE), Print Stdout MsgOgr2ogr,
                  Exec (ogr2ogr_command ogr2ogr input_path) []]"
    unfolding main_resolved [OF assms(1,2)] using assms(3,4)
    by (simp add: dispatch_def import_with_ogr2ogr_def Let_def split: proc_result.splits)
  have 2: "commands_run (fst (main w)) = [ogr2ogr_command ogr2ogr input_path]"
    unfolding 1 by simp
  have 3: "ogr2ogr_command ogr2ogr input_path
             = [ogr2ogr, ''-f'', ''PostgreSQL'',
                ''PG:host=localhost port=5433 dbname=geoserver user=postgres password=postgres'',
                input_path, ''-overwrite'', ''-nln'', ''GisTPI_import'']"
    by (simp add: ogr2ogr_command_def dsn_def config_defs)
  have 4: "\<forall>argv \<in> set (commands_run (fst (main w))). \<not> is_activation_cmd argv"
    unfolding 2 by (simp add: ogr2ogr_not_activation)
  have "Print Stdout MsgPaso1 \<notin> set (fst (detect_file_type w input_path))"
    by (simp add: detect_file_type_def Let_def split: option.splits)
  then have 5: "Print Stdout MsgPaso1 \<notin> set (fst (main w))"
    unfolding 1 by simp
  from 1 2 3 4 5 show ?thesis
    by (intro conjI)
qed

theorem geopackage_witness:
  "resolve_input_file (with_file sqlite_file) INPUT_FILENAME = Some ''/opt/restore/GisTPI''
   \<and> snd (detect_file_type (with_file sqlite_file) ''/opt/restore/GisTPI'') = GEOPACKAGE
   \<and> find_executable (with_file sqlite_file) ''ogr2ogr'' = Some ''/usr/bin/ogr2ogr''
   \<and> fst (main (with_file sqlite_file))
       = [Print Stdout MsgIniciando, OpenFile ''/opt/restore/GisTPI'' True,
          Print Stdout (MsgTipo GEOPACKAGE), Print Stdout MsgOgr2ogr,
          Exec [''/usr/bin/ogr2ogr'', ''-f'', ''PostgreSQL'',
                ''PG:host=localhost port=5433 dbname=geoserver user=postgres password=postgres'',
                ''/opt/restore/GisTPI'', ''-overwrite'', ''-nln'', ''GisTPI_import''] []]"
proof -
  let ?w = "with_file sqlite_file"
  have h1: "resolve_input_file ?w INPUT_FILENAME = Some ''/opt/restore/GisTPI''"
    by (simp add: resolve_input_file_def world_defs INPUT_FILENAME_def)
  have h2: "''/opt/restore/GisTPI'' \<noteq> []"
    by simp
  have d: "detect_file_type ?w ''/opt/restore/GisTPI''
             = ([OpenFile ''/opt/restore/GisTPI'' True], GEOPACKAGE)"
    by (simp add: detect_file_type_def world_defs PGDMP_magic_def SQLite_magic_def)
  then have h3: "snd (detect_file_type ?w ''/opt/restore/GisTPI'') = GEOPACKAGE"
    by simp
  have h4: "find_executable ?w ''ogr2ogr'' = Some ''/usr/bin/ogr2ogr''"
    by (simp add: find_executable_def world_defs)
  from geopackage_end_to_end [OF h1 h2 h3 h4] h1 h3 h4 d show ?thesis
    by simp
qed

text \<open>
  C6 fails on the spatial-package stage. With ogr2ogr nowhere to be found,
  \<open>import_with_ogr2ogr\<close> does not test the result of the lookup as its two siblings do:
  the run ends on an uncaught \<^verbatim>\<open>TypeError\<close> raised by \<^verbatim>\<open>subprocess.run\<close>, and the
  program has written nothing of its own to the error stream.
\<close>

theorem missing_ogr2ogr_crashes:
  "find_executable (no_tools (with_file sqlite_file)) ''ogr2ogr'' = None
   \<and> main (no_tools (with_file sqlite_file))
       = ([Print Stdout MsgIniciando, OpenFile ''/opt/restore/GisTPI'' True,
           Print Stdout (MsgTipo GEOPACKAGE), Print Stdout MsgOgr2ogr], Uncaught TypeError)"
  by (simp add: program_defs world_defs INPUT_FILENAME_def)

text \<open>The sibling stages do test the lookup: with no tool they report and return.\<close>

lemma missing_pg_restore_reported:
  assumes "\<not> truthy (find_executable w ''pg_restore'')"
  shows "pg_restore_step w filepath = ([Print Stderr MsgNoPgRestore], Return ())"
  using assms by (cases "find_executable w ''pg_restore''") (simp_all add: pg_restore_step_def)

lemma main_no_tools_binary:
  "main (no_tools sample_world)
     = ([Print Stdout MsgIniciando, OpenFile ''/opt/restore/GisTPI'' True,
         Print Stdout (MsgTipo PG_DUMP_BINARY), Print Stdout MsgPaso2Binario,
         Print Stdout MsgPaso1, Print Stderr MsgNoPsqlPostgis,
         Print Stderr MsgNoPgRestore], Return ())"
  by (simp add: program_defs world_defs INPUT_FILENAME_def)

subsection \<open>psql is missing\<close>

text \<open>
  C7, as the code has it. When psql cannot be found, the activator prints its banner,
  reports the problem on the error stream and returns \<^verbatim>\<open>False\<close>: no statement is run
  and the process goes on. The binary-dump importer then goes on to its own lookup, and
  if pg_restore is found the restore is the only command it runs. The script importer
  looks psql up again, does not find it either, reports that on the error stream and
  returns: it runs no command.
\<close>

theorem psql_missing_skips_activation:
  assumes "\<not> truthy (find_executable w ''psql'')"
  shows "force_enable_postgis w
           = ([Print Stdout MsgPaso1, Print Stderr MsgNoPsqlPostgis], Return (Some False))
         \<and> import_with_pg_restore w filepath
             = after [Print Stdout MsgPaso2Binario, Print Stdout MsgPaso1,
                      Print Stderr MsgNoPsqlPostgis] (pg_restore_step w filepath)
         \<and> (\<forall>tool. find_executable w ''pg_restore'' = Some tool \<and> tool \<noteq> [] \<longrightarrow>
               commands_run (fst (import_with_pg_restore w filepath))
                 = [pg_restore_command tool filepath]
               \<and> snd (import_with_pg_restore w filepath) = Return ())
         \<and> import_with_psql w filepath
             = ([Print Stdout MsgPaso2SQL, Print Stdout MsgPaso1,
                 Print Stderr MsgNoPsqlPostgis, Print Stderr MsgNoPsql], Return ())"
proof -
  note act = force_enable_postgis_no_psql [OF assms]
  have 1: "import_with_pg_restore w filepath
             = after [Print Stdout MsgPaso2Binario, Print Stdout MsgPaso1,
                      Print Stderr MsgNoPsqlPostgis] (pg_restore_step w filepath)"
    by (simp add: import_with_pg_restore_def and_then_def act after_def)
  have 2: "\<forall>tool. find_executable w ''pg_restore'' = Some tool \<and> tool \<noteq> [] \<longrightarrow>
               commands_run (fst (import_with_pg_restore w filepath))
                 = [pg_restore_command tool filepath]
               \<and> snd (import_with_pg_restore w filepath) = Return ()"
    unfolding 1 using pg_restore_step_found by simp
  have 3: "import_with_psql w filepath
             = ([Print Stdout MsgPaso2SQL, Print Stdout MsgPaso1,
                 Print Stderr MsgNoPsqlPostgis, Print Stderr MsgNoPsql], Return ())"
    by (simp add: import_with_psql_def and_then_def act after_def psql_step_no_psql [OF assms])
  from act 1 2 3 show ?thesis
    by (intro conjI)
qed

theorem psql_missing_witness:
  "\<not> truthy (find_executable (no_psql sample_world) ''psql'')
   \<and> find_executable (no_psql sample_world) ''pg_restore'' = Some ''/usr/bin/pg_restore''
   \<and> force_enable_postgis (no_psql sample_world)
       = ([Print Stdout MsgPaso1, Print Stderr MsgNoPsqlPostgis], Return (Some False))
   \<and> commands_run (fst (import_with_pg_restore (no_psql sample_world) ''/opt/restore/GisTPI''))
       = [pg_restore_command ''/usr/bin/pg_restore'' ''/opt/restore/GisTPI'']
   \<and> commands_run (fst (import_with_psql (no_psql sample_world) ''/opt/restore/GisTPI'')) = []"
proof -
  let ?w = "no_psql sample_world"
  have h1: "\<not> truthy (find_executable ?w ''psql'')"
    by (simp add: find_executable_def common_paths_def world_defs)
  have h2: "find_executable ?w ''pg_restore'' = Some ''/usr/bin/pg_restore''"
    by (simp add: find_executable_def world_defs)
  note t = psql_missing_skips_activation [OF h1, of "''/opt/restore/GisTPI''"]
  from t have a: "force_enable_postgis ?w
       = ([Print Stdout MsgPaso1, Print Stderr MsgNoPsqlPostgis], Return (Some False))"
    by blast
  from t h2 have b: "commands_run (fst (import_with_pg_restore ?w ''/opt/restore/GisTPI''))
       = [pg_restore_command ''/usr/bin/pg_restore'' ''/opt/restore/GisTPI'']"
    by blast
  from t have "import_with_psql ?w ''/opt/restore/GisTPI''
             = ([Print Stdout MsgPaso2SQL, Print Stdout MsgPaso1,
                 Print Stderr MsgNoPsqlPostgis, Print Stderr MsgNoPsql], Return ())"
    by blast
  then have c: "commands_run (fst (import_with_psql ?w ''/opt/restore/GisTPI'')) = []"
    by simp
  from h1 h2 a b c show ?thesis
    by (intro conjI)
qed

text \<open>
  C7, as stated, fails on the script path: the tool of that path is psql itself, so with
  psql missing the run of an SQL script attempts no import at all.
\<close>

theorem psql_missing_script_counterexample:
  "\<not> truthy (find_executable (no_psql (with_file ''set search_path = public;'')) ''psql'')
   \<and> snd (detect_file_type (no_psql (with_file ''set search_path = public;''))
            ''/opt/restore/GisTPI'') = SQL_SCRIPT
   \<and> main (no_psql (with_file ''set search_path = public;''))
       = ([Print Stdout MsgIniciando, OpenFile ''/opt/restore/GisTPI'' True,
           OpenFile ''/opt/restore/GisTPI'' False, Print Stdout (MsgTipo SQL_SCRIPT),
           Print Stdout MsgPaso2SQL, Print Stdout MsgPaso1, Print Stderr MsgNoPsqlPostgis,
           Print Stderr MsgNoPsql], Return ())
   \<and> commands_run (fst (main (no_psql (with_file ''set search_path = public;'')))) = []"
proof -
  let ?w = "no_psql (with_file ''set search_path = public;'')"
  have m: "main ?w
       = ([Print Stdout MsgIniciando, OpenFile ''/opt/restore/GisTPI'' True,
           OpenFile ''/opt/restore/GisTPI'' False, Print Stdout (MsgTipo SQL_SCRIPT),
           Print Stdout MsgPaso2SQL, Print Stdout MsgPaso1, Print Stderr MsgNoPsqlPostgis,
           Print Stderr MsgNoPsql], Return ())"
    by (simp add: program_defs world_defs INPUT_FILENAME_def sublist_Cons_right)
  have "\<not> truthy (find_executable ?w ''psql'')"
    by (simp add: find_executable_def common_paths_def world_defs)
  moreover have "snd (detect_file_type ?w ''/opt/restore/GisTPI'') = SQL_SCRIPT"
    by (simp add: program_defs world_defs sublist_Cons_right)
  moreover have "commands_run (fst (main ?w)) = []"
    unfolding m by simp
  ultimately show ?thesis
    using m by (intro conjI)
qed

subsection \<open>The unknown format\<close>

lemma search_common_paths_read_file [simp]:
  "search_common_paths (w\<lparr>read_file := f\<rparr>) name patterns = search_common_paths w name patterns"
  by (induction patterns) (simp_all cong: list.case_cong)

lemma find_executable_read_file [simp]:
  "find_executable (w\<lparr>read_file := f\<rparr>) name = find_executable w name"
  by (simp add: find_executable_def Let_def)

lemma launch_read_file [simp]:
  "launch_stackbuilder_from_error (w\<lparr>read_file := f\<rparr>) err
     = launch_stackbuilder_from_error w err"
  by (simp add: launch_stackbuilder_from_error_def locate_stackbuilder_def Let_def
      cong: option.case_cong list.case_cong if_cong)

lemma enable_statements_read_file [simp]:
  "enable_statements (w\<lparr>read_file := f\<rparr>) tool cmds = enable_statements w tool cmds"
  by (induction cmds) (simp_all add: Let_def cong: proc_result.case_cong if_cong)

lemma import_with_pg_restore_read_file [simp]:
  "import_with_pg_restore (w\<lparr>read_file := f\<rparr>) filepath = import_with_pg_restore w filepath"
  by (simp add: import_with_pg_restore_def force_enable_postgis_def pg_restore_step_def Let_def
      cong: option.case_cong proc_result.case_cong if_cong)

lemma resolve_input_file_read_file [simp]:
  "resolve_input_file (w\<lparr>read_file := f\<rparr>) name = resolve_input_file w name"
  by (simp add: resolve_input_file_def)

text \<open>
  C10. The branch for an unknown format is the warning followed by the branch for a
  binary dump. So take a run whose input is classified as UNKNOWN, and the run on the
  same machine with the content of the file replaced by one classified as a binary dump.
  After the format line the first run prints the warning; from there on both runs are
  the same call \<open>import_with_pg_restore\<close> in the same world on the same path: the same
  events, hence the same commands with the same arguments, and the same outcome.
\<close>

theorem unknown_behaves_as_binary_dump:
  assumes "resolve_input_file w INPUT_FILENAME = Some input_path" and "input_path \<noteq> []"
    and "snd (detect_file_type w input_path) = UNKNOWN"
    and "snd (detect_file_type (w\<lparr>read_file := contents\<rparr>) input_path) = PG_DUMP_BINARY"
  shows "dispatch w UNKNOWN input_path
           = after [Print Stdout MsgDesconocido] (dispatch w PG_DUMP_BINARY input_path)
         \<and> main w
             = after (Print Stdout MsgIniciando # fst (detect_file_type w input_path)
                        @ [Print Stdout (MsgTipo UNKNOWN), Print Stdout MsgDesconocido])
                 (import_with_pg_restore w input_path)
         \<and> main (w\<lparr>read_file := contents\<rparr>)
             = after (Print Stdout MsgIniciando
                        # fst (detect_file_type (w\<lparr>read_file := contents\<rparr>) input_path)
                        @ [Print Stdout (MsgTipo PG_DUMP_BINARY)])
                 (import_with_pg_restore w input_path)
         \<and> commands_run (fst (main w)) = commands_run (fst (main (w\<lparr>read_file := contents\<rparr>)))
         \<and> snd (main w) = snd (main (w\<lparr>read_file := contents\<rparr>))"
proof -
  let ?w' = "w\<lparr>read_file := contents\<rparr>"
  have 1: "dispatch w UNKNOWN input_path
           = after [Print Stdout MsgDesconocido] (dispatch w PG_DUMP_BINARY input_path)"
    by (simp add: dispatch_def)
  have 2: "main w
             = after (Print Stdout MsgIniciando # fst (detect_file_type w input_path)
                        @ [Print Stdout (MsgTipo UNKNOWN), Print Stdout MsgDesconocido])
                 (import_with_pg_restore w input_path)"
    unfolding main_resolved [OF assms(1,2)] assms(3)
    by (simp add: dispatch_def after_def)
  have "resolve_input_file ?w' INPUT_FILENAME = Some input_path"
    using assms(1) by simp
  from main_resolved [OF this assms(2)]
  have 3: "main ?w'
             = after (Print Stdout MsgIniciando # fst (detect_file_type ?w' input_path)
                        @ [Print Stdout (MsgTipo PG_DUMP_BINARY)])
                 (import_with_pg_restore w input_path)"
    unfolding assms(4) by (simp add: dispatch_def)
  have 4: "commands_run (fst (main w)) = commands_run (fst (main ?w'))"
    unfolding 2 3 by simp
  have 5: "snd (main w) = snd (main ?w')"
    unfolding 2 3 by simp
  from 1 2 3 4 5 show ?thesis
    by (intro conjI)
qed

theorem unknown_witness:
  "resolve_input_file (with_file plain_file) INPUT_FILENAME = Some ''/opt/restore/GisTPI''
   \<and> snd (detect_file_type (with_file plain_file) ''/opt/restore/GisTPI'') = UNKNOWN
   \<and> snd (detect_file_type (with_file plain_file \<lparr>read_file := (\<lambda>p. Some ''PGDMP dump'')\<rparr>)
            ''/opt/restore/GisTPI'') = PG_DUMP_BINARY
   \<and> commands_run (fst (main (with_file plain_file)))
       = commands_run (fst (main (with_file plain_file \<lparr>read_file := (\<lambda>p. Some ''PGDMP dump'')\<rparr>)))
   \<and> snd (main (with_file plain_file))
       = snd (main (with_file plain_file \<lparr>read_file := (\<lambda>p. Some ''PGDMP dump'')\<rparr>))
   \<and> Print Stdout MsgDesconocido \<in> set (fst (main (with_file plain_file)))"
proof -
  let ?w = "with_file plain_file"
  let ?f = "\<lambda>p::string. Some ''PGDMP dump''"
  have h1: "resolve_input_file ?w INPUT_FILENAME = Some ''/opt/restore/GisTPI''"
    by (simp add: resolve_input_file_def world_defs INPUT_FILENAME_def)
  have h2: "''/opt/restore/GisTPI'' \<noteq> []"
    by simp
  have h3: "snd (detect_file_type ?w ''/opt/restore/GisTPI'') = UNKNOWN"
    by (simp add: program_defs world_defs sublist_Cons_right)
  have h4: "snd (detect_file_type (?w\<lparr>read_file := ?f\<rparr>) ''/opt/restore/GisTPI'')
              = PG_DUMP_BINARY"
    by (simp add: program_defs world_defs)
  note t = unknown_behaves_as_binary_dump [OF h1 h2 h3 h4]
  from t have a: "commands_run (fst (main ?w)) = commands_run (fst (main (?w\<lparr>read_file := ?f\<rparr>)))"
    and b: "snd (main ?w) = snd (main (?w\<lparr>read_file := ?f\<rparr>))"
    by blast+
  from t have "main ?w
             = after (Print Stdout MsgIniciando # fst (detect_file_type ?w ''/opt/restore/GisTPI'')
                        @ [Print Stdout (MsgTipo UNKNOWN), Print Stdout MsgDesconocido])
                 (import_with_pg_restore ?w ''/opt/restore/GisTPI'')"
    by blast
  then have c: "Print Stdout MsgDesconocido \<in> set (fst (main ?w))"
    by simp
  from h1 h3 h4 a b c show ?thesis
    by (intro conjI)
qed

end
